theory Spec2Isabelle
  imports Complex_Main "HOL-Library.Word" "HOL-Library.AList"
begin

section \<open>The device shadow of MTRDevice.mm\<close>

text \<open>
  A shallow embedding of the parts of \<^verbatim>\<open>src/darwin/Framework/CHIP/MTRDevice.mm\<close> that
  keep the subscription back-off, the attribute cache, the expected-value cache and the
  read/write/invoke work items. An Objective-C method \<^verbatim>\<open>-_foo:\<close> of \<^verbatim>\<open>MTRDevice\<close> is the
  function \<open>foo\<close> that takes the device and returns the device after the call; a method
  that reads the clock takes the instant read as an argument, one argument for each read
  of the clock that a call makes. Blocks handed to
  \<^verbatim>\<open>dispatch_async\<close>/\<^verbatim>\<open>dispatch_after\<close> and calls of other objects are appended to the
  field \<open>effects\<close> of the device, in program order. Logging and the code under
  \<^verbatim>\<open>#ifdef DEBUG\<close> are left out, and so is the book-keeping of the estimated start time,
  which none of the functions below reads. \<^verbatim>\<open>NSTimeInterval\<close> and \<^verbatim>\<open>NSDate\<close> are doubles
  in the program and exact rationals (seconds) here.
\<close>

subsection \<open>Data values\<close>

type_synonym NSTimeInterval = rat
type_synonym NSDate = rat

text \<open>
  Modelled from the spec: the type-tag constants (\<^verbatim>\<open>MTRArrayValueType\<close>,
  \<^verbatim>\<open>MTRUnsignedIntegerValueType\<close>, ...) are strings declared in MTRBaseDevice.h, which is
  not among the sources; the tags are the ten of the data model's \<^verbatim>\<open>DataValue\<close>.
\<close>

datatype MTRValueType =
    MTRSignedIntegerValueType
  | MTRUnsignedIntegerValueType
  | MTRBooleanValueType
  | MTRUTF8StringValueType
  | MTROctetStringValueType
  | MTRFloatValueType
  | MTRDoubleValueType
  | MTRNullValueType
  | MTRStructureValueType
  | MTRArrayValueType

text \<open>
  Objects as the code tests them with \<^verbatim>\<open>isKindOfClass:\<close>. A \<open>dict\<close> is an
  \<^verbatim>\<open>NSDictionary\<close> over the keys the device looks at: \<^verbatim>\<open>MTRTypeKey\<close>, \<^verbatim>\<open>MTRValueKey\<close>,
  \<^verbatim>\<open>MTRDataKey\<close> and \<^verbatim>\<open>MTRDataVersionKey\<close>; \<open>None\<close> is a missing key (\<^verbatim>\<open>nil\<close>).
\<close>

datatype obj =
    NSNumber int
  | NSString string
  | NSData "nat list"
  | NSArray "obj list"
  | NSDictionary dict
and dict =
    Dict (typeKey: "MTRValueType option") (valueKey: "obj option")
         (dataKey: "obj option") (dataVersionKey: "nat option")

type_synonym MTRDeviceDataValueDictionary = dict

datatype MTRAttributePath = AttributePath (endpoint: nat) (cluster: nat) (attribute: nat)

type_synonym MTRAttributeRequestPath = MTRAttributePath

type_synonym MTRClusterPath = "nat \<times> nat"

definition clusterPathWithEndpointID :: "nat \<Rightarrow> nat \<Rightarrow> MTRClusterPath" where
  "clusterPathWithEndpointID endpointID clusterID = (endpointID, clusterID)"

text \<open>
  An attribute response-value dictionary: \<^verbatim>\<open>MTRAttributePathKey\<close>, \<^verbatim>\<open>MTRDataKey\<close>,
  \<^verbatim>\<open>MTRErrorKey\<close> and, on the way out, \<^verbatim>\<open>MTRPreviousDataKey\<close>.
\<close>

record MTRAttributeResponse =
  attributePathKey :: MTRAttributePath
  attributeDataKey :: "dict option"
  attributeErrorKey :: "nat option"
  previousDataKey :: "dict option"

datatype MTREventTimeType = MTREventTimeTypeSystemUpTime | MTREventTimeTypePosixTime

text \<open>
  An event dictionary: \<^verbatim>\<open>MTREventPathKey\<close> (endpoint, cluster, event),
  \<^verbatim>\<open>MTREventTimeTypeKey\<close>, \<^verbatim>\<open>MTREventSystemUpTimeKey\<close> and \<^verbatim>\<open>MTREventIsHistoricalKey\<close>.
\<close>

record MTREventReport =
  eventPathKey :: "nat \<times> nat \<times> nat"
  eventTimeTypeKey :: "MTREventTimeType option"
  eventSystemUpTimeKey :: "NSTimeInterval option"
  eventIsHistoricalKey :: "bool option"

record MTRDeviceClusterData =
  dataVersion :: "nat option"
  attributes :: "nat \<rightharpoonup> dict"

text \<open>
  The persisted side of the cluster data store. \<^verbatim>\<open>_persistedClusterData\<close> is not nil
  exactly when the controller has a data store (\<^verbatim>\<open>initWithNodeID:controller:\<close>), and the
  assertions of \<^verbatim>\<open>_clusterDataForPath:\<close> say that \<^verbatim>\<open>_persistedClusters\<close> has no entry
  without one, so the three live in one optional record. \<open>controllerDataStore\<close> is
  what \<^verbatim>\<open>getStoredClusterDataForNodeID:endpointID:clusterID:\<close> answers for this node.
  Cluster data objects are held by value; the code looks at the dirty map first, where the
  object it last changed is, so the sharing of one object by both maps is not observed.
\<close>

record persistence =
  persistedClusterData :: "MTRClusterPath \<rightharpoonup> MTRDeviceClusterData"
  persistedClusters :: "MTRClusterPath set"
  controllerDataStore :: "MTRClusterPath \<rightharpoonup> MTRDeviceClusterData"

subsection \<open>Work items\<close>

text \<open>
  Modelled from the spec: \<^verbatim>\<open>MTRReadParams\<close> is declared in MTRBaseDevice.h, which is not
  among the sources; read params are compared structurally.
\<close>

record MTRReadParams =
  filterByFabric :: bool
  minEventNumber :: "nat option"
  assumeUnknownAttributesReportable :: bool

text \<open>
  A read request is the array \<^verbatim>\<open>[path, params]\<close>, with \<^verbatim>\<open>NSNull\<close> (here \<open>None\<close>) standing
  in for nil params; a write request is
  \<^verbatim>\<open>[path, value, timedWriteTimeout, expectedValueID]\<close>.
\<close>

type_synonym read_request = "MTRAttributeRequestPath \<times> MTRReadParams option"

type_synonym write_request = "MTRAttributePath \<times> dict \<times> rat option \<times> 64 word"

text \<open>
  What the blocks of an invoke work item capture. \<open>invokeTimed\<close> holds \<^verbatim>\<open>timeout\<close>
  (milliseconds) and \<^verbatim>\<open>cutoffTime\<close>, which are both set or both nil.
\<close>

record invoke_request =
  invokeEndpointID :: nat
  invokeClusterID :: nat
  invokeCommandID :: nat
  invokeCommandFields :: obj
  invokeExpectedValues :: "(MTRAttributePath \<times> dict) list option"
  invokeAttributePaths :: "MTRAttributePath list option"
  invokeExpectedValueID :: "64 word"
  invokeTimed :: "(rat \<times> NSDate) option"
  invokeServerSideProcessingTimeout :: "rat option"

datatype MTRAsyncWorkItem =
    ReadWorkItem "read_request list"
  | WriteWorkItem "write_request list"
  | InvokeWorkItem invoke_request

subsection \<open>The device\<close>

datatype MTRDeviceState =
    MTRDeviceStateUnknown
  | MTRDeviceStateReachable
  | MTRDeviceStateUnreachable

datatype MTRInternalDeviceState =
    MTRInternalDeviceStateUnsubscribed
  | MTRInternalDeviceStateSubscribing
  | MTRInternalDeviceStateInitalSubscriptionEstablished

fun rawValue :: "MTRInternalDeviceState \<Rightarrow> nat" where
  "rawValue MTRInternalDeviceStateUnsubscribed = 0"
| "rawValue MTRInternalDeviceStateSubscribing = 1"
| "rawValue MTRInternalDeviceStateInitalSubscriptionEstablished = 2"

definition HadSubscriptionEstablishedOnce :: "MTRInternalDeviceState \<Rightarrow> bool" where
  "HadSubscriptionEstablishedOnce st \<longleftrightarrow>
     rawValue st \<ge> rawValue MTRInternalDeviceStateInitalSubscriptionEstablished"

definition NeedToStartSubscriptionSetup :: "MTRInternalDeviceState \<Rightarrow> bool" where
  "NeedToStartSubscriptionSetup st \<longleftrightarrow>
     rawValue st \<le> rawValue MTRInternalDeviceStateUnsubscribed"

datatype NSError =
    MTRInteractionErrorCodeTimeout
  | MTRInteractionErrorCodeBusy
  | NSErrorOther nat

datatype MTRAsyncWorkOutcome = MTRAsyncWorkComplete | MTRAsyncWorkNeedsRetry

text \<open>
  The blocks the device schedules on its own queue, and what leaves the device: calls of
  the delegate, of the controller, of the data store, of the base device, and the
  completions of a work item. \<open>BaseDeviceInvokeCommand\<close> carries the timed invoke
  timeout in milliseconds.
\<close>

datatype block =
    ReattemptSubscriptionNowIfNeeded
  | MarkDeviceAsUnreachableIfNeverSubscribed
  | PerformScheduledExpirationCheck
  | PerformScheduledTimeUpdate

datatype effect =
    DelegateStateChanged MTRDeviceState
  | DelegateReceivedAttributeReport "MTRAttributeResponse list"
  | DelegateReceivedEventReport "MTREventReport list"
  | DelegateDeviceCachePrimed
  | DelegateDeviceBecameActive
  | DelegateDeviceConfigurationChanged
  | DispatchAfter NSTimeInterval block
  | GetSessionForNode
  | SetupConnectivityMonitoring
  | StopMonitoring
  | StoreClusterData "MTRClusterPath \<rightharpoonup> MTRDeviceClusterData"
  | TriggerResubscribe
  | BaseDeviceInvokeCommand "rat option"
  | InvokeCompletion "obj list option" "NSError option"
  | WorkCompletion MTRAsyncWorkOutcome

text \<open>
  An entry of the expected-value cache is the array
  \<^verbatim>\<open>[expiration time, value, expected value ID]\<close>. The cache is an association list, in
  the order the keys were first stored: \<^verbatim>\<open>_checkExpiredExpectedValues\<close> enumerates it.
\<close>

type_synonym expected_value = "NSDate \<times> dict \<times> 64 word"

record MTRDevice =
  weakDelegate :: bool
  deviceControllerIsOverXPC :: bool
  state :: MTRDeviceState
  internalDeviceState :: MTRInternalDeviceState
  lastSubscriptionAttemptWait :: "32 word"
  reattemptingSubscription :: bool
  lastSubscriptionFailureTime :: "NSDate option"
  connectivityMonitor :: bool
  timeUpdateScheduled :: bool
  delegateDeviceCachePrimedCalled :: bool
  receivingReport :: bool
  receivingPrimingReport :: bool
  deviceConfigurationChanged :: bool
  unreportedEvents :: "MTREventReport list option"
  expectedValueCache :: "(MTRAttributePath \<times> expected_value) list"
  expectedValueNextID :: "64 word"
  expirationCheckScheduled :: bool
  clusterDataToPersist :: "(MTRClusterPath \<times> MTRDeviceClusterData) list option"
  persisted :: "persistence option"
  asyncWorkQueue :: "MTRAsyncWorkItem list"
  effects :: "effect list"

text \<open>
  \<^verbatim>\<open>initWithNodeID:controller:\<close>; the argument says whether the controller has a data
  store. Instance variables the initialiser does not set are zero, \<^verbatim>\<open>NO\<close> or \<^verbatim>\<open>nil\<close>.
\<close>

definition initWithNodeID :: "bool \<Rightarrow> MTRDevice" where
  "initWithNodeID hasDataStore =
     \<lparr> weakDelegate = False,
       deviceControllerIsOverXPC = False,
       state = MTRDeviceStateUnknown,
       internalDeviceState = MTRInternalDeviceStateUnsubscribed,
       lastSubscriptionAttemptWait = 0,
       reattemptingSubscription = False,
       lastSubscriptionFailureTime = None,
       connectivityMonitor = False,
       timeUpdateScheduled = False,
       delegateDeviceCachePrimedCalled = False,
       receivingReport = False,
       receivingPrimingReport = False,
       deviceConfigurationChanged = False,
       unreportedEvents = None,
       expectedValueCache = [],
       expectedValueNextID = 0,
       expirationCheckScheduled = False,
       clusterDataToPersist = None,
       persisted = (if hasDataStore
                    then Some \<lparr> persistedClusterData = Map.empty, persistedClusters = {},
                                controllerDataStore = Map.empty \<rparr>
                    else None),
       asyncWorkQueue = [],
       effects = [] \<rparr>"

definition dispatch :: "effect \<Rightarrow> MTRDevice \<Rightarrow> MTRDevice" where
  "dispatch e s = s\<lparr>effects := effects s @ [e]\<rparr>"

subsection \<open>Subscription handling\<close>

definition MTRDEVICE_SUBSCRIPTION_ATTEMPT_MIN_WAIT_SECONDS :: "32 word" where
  "MTRDEVICE_SUBSCRIPTION_ATTEMPT_MIN_WAIT_SECONDS = 1"

definition MTRDEVICE_SUBSCRIPTION_ATTEMPT_MAX_WAIT_SECONDS :: "32 word" where
  "MTRDEVICE_SUBSCRIPTION_ATTEMPT_MAX_WAIT_SECONDS = 3600"

definition kSecondsToWaitBeforeMarkingUnreachableAfterSettingUpSubscription :: NSTimeInterval where
  "kSecondsToWaitBeforeMarkingUnreachableAfterSettingUpSubscription = 10"

definition MTR_DEVICE_TIME_UPDATE_INITIAL_WAIT_TIME_SEC :: NSTimeInterval where
  "MTR_DEVICE_TIME_UPDATE_INITIAL_WAIT_TIME_SEC = 60 * 2"

text \<open>\<^verbatim>\<open>_callDelegateWithBlock:\<close> says whether there was a delegate to call.\<close>

definition callDelegateWithBlock :: "effect \<Rightarrow> MTRDevice \<Rightarrow> bool \<times> MTRDevice" where
  "callDelegateWithBlock blk s =
     (if weakDelegate s then (True, dispatch blk s) else (False, s))"

definition callDelegateDeviceCachePrimed :: "MTRDevice \<Rightarrow> MTRDevice" where
  "callDelegateDeviceCachePrimed s =
     (let (called, s') = callDelegateWithBlock DelegateDeviceCachePrimed s
      in s'\<lparr>delegateDeviceCachePrimedCalled := called\<rparr>)"

definition changeState :: "MTRDeviceState \<Rightarrow> MTRDevice \<Rightarrow> MTRDevice" where
  "changeState newState s =
     (let lastState = state s;
          s' = s\<lparr>state := newState\<rparr>
      in if lastState \<noteq> newState
         then (if weakDelegate s' then dispatch (DelegateStateChanged newState) s' else s')
         else s')"

definition stopConnectivityMonitoring :: "MTRDevice \<Rightarrow> MTRDevice" where
  "stopConnectivityMonitoring s =
     (if connectivityMonitor s
      then (dispatch StopMonitoring s)\<lparr>connectivityMonitor := False\<rparr>
      else s)"

definition scheduleNextUpdate :: "NSTimeInterval \<Rightarrow> MTRDevice \<Rightarrow> MTRDevice" where
  "scheduleNextUpdate nextUpdateInSeconds s =
     (dispatch (DispatchAfter nextUpdateInSeconds PerformScheduledTimeUpdate) s)
       \<lparr>timeUpdateScheduled := True\<rparr>"

definition handleSubscriptionEstablished :: "MTRDevice \<Rightarrow> MTRDevice" where
  "handleSubscriptionEstablished s0 =
     (let s1 = s0\<lparr>lastSubscriptionAttemptWait := 0,
                  internalDeviceState := MTRInternalDeviceStateInitalSubscriptionEstablished\<rparr>;
          s2 = (if \<not> delegateDeviceCachePrimedCalled s1
                then callDelegateDeviceCachePrimed s1 else s1);
          s3 = changeState MTRDeviceStateReachable s2;
          s4 = stopConnectivityMonitoring s3
      in if \<not> timeUpdateScheduled s4
         then scheduleNextUpdate MTR_DEVICE_TIME_UPDATE_INITIAL_WAIT_TIME_SEC s4
         else s4)"

definition handleSubscriptionError :: "MTRDevice \<Rightarrow> MTRDevice" where
  "handleSubscriptionError s =
     changeState MTRDeviceStateUnreachable
       (s\<lparr>internalDeviceState := MTRInternalDeviceStateUnsubscribed,
          unreportedEvents := None\<rparr>)"

definition handleResubscriptionNeeded :: "NSDate \<Rightarrow> MTRDevice \<Rightarrow> MTRDevice" where
  "handleResubscriptionNeeded now s =
     dispatch SetupConnectivityMonitoring
       ((changeState MTRDeviceStateUnknown s)\<lparr>lastSubscriptionFailureTime := Some now\<rparr>)"

text \<open>
  \<^verbatim>\<open>_handleSubscriptionReset:\<close>. \<open>retryDelay\<close> is the server-provided delay in seconds,
  \<open>None\<close> for \<^verbatim>\<open>nil\<close>. \<^verbatim>\<open>_lastSubscriptionAttemptWait\<close> is a \<^verbatim>\<open>uint32_t\<close>; the seconds to
  wait are handed to \<^verbatim>\<open>dispatch_after\<close>.
\<close>

definition handleSubscriptionReset :: "NSTimeInterval option \<Rightarrow> NSDate \<Rightarrow> MTRDevice \<Rightarrow> MTRDevice" where
  "handleSubscriptionReset retryDelay now s0 =
     (let s = s0\<lparr>lastSubscriptionFailureTime := Some now\<rparr> in
      if \<not> weakDelegate s then s
      else if reattemptingSubscription s then s
      else
        let s1 = s\<lparr>reattemptingSubscription := True\<rparr>;
            (s2, secondsToWait) =
              (if lastSubscriptionAttemptWait s1 < MTRDEVICE_SUBSCRIPTION_ATTEMPT_MIN_WAIT_SECONDS
               then
                 (s1\<lparr>lastSubscriptionAttemptWait := MTRDEVICE_SUBSCRIPTION_ATTEMPT_MIN_WAIT_SECONDS\<rparr>,
                  of_nat (unat MTRDEVICE_SUBSCRIPTION_ATTEMPT_MIN_WAIT_SECONDS))
               else
                 (case retryDelay of
                    Some d \<Rightarrow> (s1\<lparr>lastSubscriptionAttemptWait := 0\<rparr>, d)
                  | None \<Rightarrow>
                      let w = lastSubscriptionAttemptWait s1 * 2;
                          w' = (if w > MTRDEVICE_SUBSCRIPTION_ATTEMPT_MAX_WAIT_SECONDS
                                then MTRDEVICE_SUBSCRIPTION_ATTEMPT_MAX_WAIT_SECONDS else w)
                      in (s1\<lparr>lastSubscriptionAttemptWait := w'\<rparr>, of_nat (unat w'))))
        in dispatch (DispatchAfter secondsToWait ReattemptSubscriptionNowIfNeeded) s2)"

text \<open>
  \<^verbatim>\<open>_setupSubscription\<close> up to the request for a session; the completion of
  \<^verbatim>\<open>getSessionForNode:completion:\<close> runs later, as \<open>subscriptionAttemptFailed\<close> below
  when it fails.
\<close>

definition setupSubscription :: "MTRDevice \<Rightarrow> MTRDevice" where
  "setupSubscription s =
     (if \<not> NeedToStartSubscriptionSetup (internalDeviceState s) then s
      else
        dispatch SetupConnectivityMonitoring
          (dispatch GetSessionForNode
            (dispatch (DispatchAfter kSecondsToWaitBeforeMarkingUnreachableAfterSettingUpSubscription
                         MarkDeviceAsUnreachableIfNeverSubscribed)
              (s\<lparr>internalDeviceState := MTRInternalDeviceStateSubscribing\<rparr>))))"

definition reattemptSubscriptionNowIfNeeded :: "MTRDevice \<Rightarrow> MTRDevice" where
  "reattemptSubscriptionNowIfNeeded s =
     (if \<not> reattemptingSubscription s then s
      else setupSubscription (s\<lparr>reattemptingSubscription := False\<rparr>))"

definition markDeviceAsUnreachableIfNeverSubscribed :: "MTRDevice \<Rightarrow> MTRDevice" where
  "markDeviceAsUnreachableIfNeverSubscribed s =
     (if HadSubscriptionEstablishedOnce (internalDeviceState s) then s
      else changeState MTRDeviceStateUnreachable s)"

text \<open>
  The block that \<^verbatim>\<open>_setupSubscription\<close> dispatches when no session could be had or the
  subscribe request could not be sent: \<^verbatim>\<open>_handleSubscriptionError:\<close>, then
  \<^verbatim>\<open>_handleSubscriptionReset:\<close> with the delay the server gave, if any.
\<close>

definition subscriptionAttemptFailed :: "NSTimeInterval option \<Rightarrow> NSDate \<Rightarrow> MTRDevice \<Rightarrow> MTRDevice" where
  "subscriptionAttemptFailed retryDelay now s =
     handleSubscriptionReset retryDelay now (handleSubscriptionError s)"

text \<open>
  Consecutive failed attempts with no server-provided delay, one per instant of the list:
  each failure is followed by the block its \<^verbatim>\<open>dispatch_after\<close> scheduled, which starts the
  next attempt.
\<close>

fun failedAttempts :: "NSDate list \<Rightarrow> MTRDevice \<Rightarrow> MTRDevice" where
  "failedAttempts [] s = s"
| "failedAttempts (now # nows) s =
     failedAttempts nows (reattemptSubscriptionNowIfNeeded (subscriptionAttemptFailed None now s))"

subsection \<open>Constants declared outside the sources\<close>

text \<open>
  The cluster, attribute and endpoint identifiers (MTRClusterConstants.h), the tables behind
  \<^verbatim>\<open>MTRAttributeIsSpecified\<close> and \<^verbatim>\<open>MTRCommandNeedsTimedInvoke\<close> and the default timed
  interaction timeout are not among the sources; the functions that use them take them as
  a parameter. \<open>changesOmittedAttributes\<close> lists, for each \<^verbatim>\<open>case\<close> of the outer
  \<^verbatim>\<open>switch\<close> of \<^verbatim>\<open>AttributeHasChangesOmittedQuality\<close>, the cluster and the attributes of
  its inner \<^verbatim>\<open>case\<close> labels.
\<close>

record MTRClusterConstants =
  kRootEndpointId :: nat
  MTRClusterIDTypeDescriptorID :: nat
  MTRAttributeIDTypeClusterDescriptorAttributeDeviceTypeListID :: nat
  MTRAttributeIDTypeClusterDescriptorAttributeServerListID :: nat
  MTRAttributeIDTypeClusterDescriptorAttributePartsListID :: nat
  MTRAttributeIDTypeGlobalAttributeAcceptedCommandListID :: nat
  MTRAttributeIDTypeGlobalAttributeAttributeListID :: nat
  MTRAttributeIDTypeGlobalAttributeClusterRevisionID :: nat
  MTRAttributeIDTypeGlobalAttributeFeatureMapID :: nat
  changesOmittedAttributes :: "(nat \<times> nat list) list"
  MTRAttributeIsSpecified :: "nat \<Rightarrow> nat \<Rightarrow> bool"
  MTRCommandNeedsTimedInvoke :: "nat \<Rightarrow> nat \<Rightarrow> bool"
  MTR_DEFAULT_TIMED_INTERACTION_TIMEOUT_MS :: rat

definition AttributeHasChangesOmittedQuality :: "MTRClusterConstants \<Rightarrow> MTRAttributePath \<Rightarrow> bool" where
  "AttributeHasChangesOmittedQuality c attributePath =
     (case map_of (changesOmittedAttributes c) (cluster attributePath) of
        Some attributeIDs \<Rightarrow> attribute attributePath \<in> set attributeIDs
      | None \<Rightarrow> False)"

subsection \<open>The cluster data store\<close>

text \<open>
  \<^verbatim>\<open>-isEqual:\<close> sent to \<^verbatim>\<open>nil\<close> answers \<^verbatim>\<open>NO\<close>; sent to an object, it compares by value.
\<close>

definition isEqual :: "'a option \<Rightarrow> 'a option \<Rightarrow> bool" where
  "isEqual receiver other = (case receiver of None \<Rightarrow> False | Some x \<Rightarrow> other = Some x)"

text \<open>
  \<^verbatim>\<open>_attributeDataValue:isEqualToDataValue:\<close>; the pointer comparison of the two values is
  true when both are \<^verbatim>\<open>nil\<close> or the same object.
\<close>

definition attributeDataValueIsEqualToDataValue :: "dict option \<Rightarrow> dict option \<Rightarrow> bool" where
  "attributeDataValueIsEqualToDataValue one theOther =
     (case (one, theOther) of
        (None, None) \<Rightarrow> True
      | (None, Some _) \<Rightarrow> False
      | (Some _, None) \<Rightarrow> False
      | (Some a, Some b) \<Rightarrow>
          isEqual (typeKey a) (typeKey b) \<and>
          (valueKey a = valueKey b \<or> isEqual (valueKey a) (valueKey b)))"

definition dataValueWithoutDataVersion :: "dict option \<Rightarrow> dict option" where
  "dataValueWithoutDataVersion attributeValue =
     (case attributeValue of
        None \<Rightarrow> None
      | Some d \<Rightarrow>
          if typeKey d = None then Some d
          else if valueKey d \<noteq> None then Some (Dict (typeKey d) (valueKey d) None None)
          else Some (Dict (typeKey d) None None None))"

definition storeValue :: "dict option \<Rightarrow> nat \<Rightarrow> MTRDeviceClusterData \<Rightarrow> MTRDeviceClusterData" where
  "storeValue v attributeID clusterData =
     clusterData\<lparr>attributes := (attributes clusterData)(attributeID := v)\<rparr>"

definition initWithDataVersion :: "nat option \<Rightarrow> MTRDeviceClusterData" where
  "initWithDataVersion v = \<lparr> dataVersion = v, attributes = Map.empty \<rparr>"

text \<open>
  \<^verbatim>\<open>_clusterDataForPath:\<close>: the dirty value, else the persisted one, else the stored one
  when the cluster is known to have been persisted; a value paged in from the store is kept
  in \<^verbatim>\<open>_persistedClusterData\<close>. The dirty map \<^verbatim>\<open>_clusterDataToPersist\<close> is an association
  list (\<open>None\<close> when nil).
\<close>

definition dirtyClusterData :: "MTRDevice \<Rightarrow> MTRClusterPath \<Rightarrow> MTRDeviceClusterData option" where
  "dirtyClusterData s clusterPath =
     (case clusterDataToPersist s of None \<Rightarrow> None | Some toPersist \<Rightarrow> map_of toPersist clusterPath)"

definition clusterDataForPath :: "MTRClusterPath \<Rightarrow> MTRDevice \<Rightarrow> MTRDeviceClusterData option \<times> MTRDevice" where
  "clusterDataForPath clusterPath s =
     (case dirtyClusterData s clusterPath of
        Some d \<Rightarrow> (Some d, s)
      | None \<Rightarrow>
          (case persisted s of
             None \<Rightarrow> (None, s)
           | Some p \<Rightarrow>
               (case persistedClusterData p clusterPath of
                  Some d \<Rightarrow> (Some d, s)
                | None \<Rightarrow>
                    if clusterPath \<notin> persistedClusters p then (None, s)
                    else
                      (case controllerDataStore p clusterPath of
                         None \<Rightarrow> (None, s)
                       | Some d \<Rightarrow>
                           (Some d,
                            s\<lparr>persisted := Some (p\<lparr>persistedClusterData :=
                                 (persistedClusterData p)(clusterPath \<mapsto> d)\<rparr>)\<rparr>)))))"

definition cachedAttributeValueForPath :: "MTRAttributePath \<Rightarrow> MTRDevice \<Rightarrow> dict option \<times> MTRDevice" where
  "cachedAttributeValueForPath path s =
     (let clusterPath = clusterPathWithEndpointID (endpoint path) (cluster path);
          (clusterData, s') = clusterDataForPath clusterPath s
      in case clusterData of
           None \<Rightarrow> (None, s')
         | Some d \<Rightarrow> (attributes d (attribute path), s'))"

definition setClusterDataToPersist :: "MTRClusterPath \<Rightarrow> MTRDeviceClusterData \<Rightarrow> MTRDevice \<Rightarrow> MTRDevice" where
  "setClusterDataToPersist clusterPath clusterData s =
     s\<lparr>clusterDataToPersist :=
         Some (AList.update clusterPath clusterData
                 (case clusterDataToPersist s of None \<Rightarrow> [] | Some toPersist \<Rightarrow> toPersist))\<rparr>"

definition setCachedAttributeValue :: "dict option \<Rightarrow> MTRAttributePath \<Rightarrow> MTRDevice \<Rightarrow> MTRDevice" where
  "setCachedAttributeValue v path s =
     (let clusterPath = clusterPathWithEndpointID (endpoint path) (cluster path);
          (clusterData, s') = clusterDataForPath clusterPath s
      in case clusterData of
           None \<Rightarrow>
             (if v = None then s'
              else setClusterDataToPersist clusterPath
                     (storeValue v (attribute path) (initWithDataVersion None)) s')
         | Some d \<Rightarrow>
             setClusterDataToPersist clusterPath (storeValue v (attribute path) d) s')"

definition noteDataVersion :: "nat \<Rightarrow> MTRClusterPath \<Rightarrow> MTRDevice \<Rightarrow> MTRDevice" where
  "noteDataVersion newVersion clusterPath s =
     (let (clusterData, s') = clusterDataForPath clusterPath s
      in case clusterData of
           None \<Rightarrow> setClusterDataToPersist clusterPath (initWithDataVersion (Some newVersion)) s'
         | Some d \<Rightarrow>
             if \<not> isEqual (dataVersion d) (Some newVersion)
             then setClusterDataToPersist clusterPath (d\<lparr>dataVersion := Some newVersion\<rparr>) s'
             else s')"

definition attributeAffectsDeviceConfiguration :: "MTRClusterConstants \<Rightarrow> MTRAttributePath \<Rightarrow> bool" where
  "attributeAffectsDeviceConfiguration c attributePath =
     (if cluster attributePath = MTRClusterIDTypeDescriptorID c \<and>
         attribute attributePath \<in>
           {MTRAttributeIDTypeClusterDescriptorAttributePartsListID c,
            MTRAttributeIDTypeClusterDescriptorAttributeServerListID c,
            MTRAttributeIDTypeClusterDescriptorAttributeDeviceTypeListID c}
      then True
      else attribute attributePath \<in>
           {MTRAttributeIDTypeGlobalAttributeAcceptedCommandListID c,
            MTRAttributeIDTypeGlobalAttributeAttributeListID c,
            MTRAttributeIDTypeGlobalAttributeClusterRevisionID c,
            MTRAttributeIDTypeGlobalAttributeFeatureMapID c})"

subsection \<open>Reports\<close>

definition handleReportBegin :: "MTRDevice \<Rightarrow> MTRDevice" where
  "handleReportBegin s0 =
     (let s = s0\<lparr>receivingReport := True\<rparr>
      in if state s \<noteq> MTRDeviceStateReachable
         then changeState MTRDeviceStateReachable (s\<lparr>receivingPrimingReport := True\<rparr>)
         else s\<lparr>receivingPrimingReport := False\<rparr>)"

text \<open>
  \<^verbatim>\<open>_handleReportEnd\<close>. The request to the data store is an effect; what the store then
  holds is the store's business.
\<close>

definition handleReportEnd :: "MTRDevice \<Rightarrow> MTRDevice" where
  "handleReportEnd s0 =
     (let s = s0\<lparr>receivingReport := False, receivingPrimingReport := False\<rparr>;
          s1 = (case (persisted s, clusterDataToPersist s) of
                  (Some p, Some toPersist) \<Rightarrow>
                    if toPersist \<noteq> []
                    then (dispatch (StoreClusterData (map_of toPersist)) s)
                           \<lparr>persisted := Some (p\<lparr>
                               persistedClusterData := persistedClusterData p ++ map_of toPersist,
                               persistedClusters := persistedClusters p \<union> set (map fst toPersist)\<rparr>),
                            clusterDataToPersist := None\<rparr>
                    else s
                | _ \<Rightarrow> s)
      in if deviceConfigurationChanged s1
         then (if weakDelegate s1 then dispatch DelegateDeviceConfigurationChanged s1 else s1)
                \<lparr>deviceConfigurationChanged := False\<rparr>
         else s1)"

definition reportAttributes :: "MTRAttributeResponse list \<Rightarrow> MTRDevice \<Rightarrow> MTRDevice" where
  "reportAttributes attrs s =
     (if attrs \<noteq> [] \<and> weakDelegate s
      then dispatch (DelegateReceivedAttributeReport attrs) s else s)"

text \<open>
  One round of the loop of \<^verbatim>\<open>_getAttributesToReportWithReportedValues:\<close>: the device
  and the attributes to report so far, after one reported entry.
\<close>

definition reportedValueStep ::
  "MTRClusterConstants \<Rightarrow> MTRAttributeResponse \<Rightarrow> MTRDevice \<times> MTRAttributeResponse list
     \<Rightarrow> MTRDevice \<times> MTRAttributeResponse list" where
  "reportedValueStep c attributeResponseValue acc =
     (let (s, attributesToReport) = acc;
          attributePath = attributePathKey attributeResponseValue;
          attributeDataValue0 = attributeDataKey attributeResponseValue;
          attributeError = attributeErrorKey attributeResponseValue
      in
      if attributeDataValue0 = None \<and> attributeError = None then (s, attributesToReport)
      else
        let s1 = (if receivingReport s \<and> AttributeHasChangesOmittedQuality c attributePath
                  then s\<lparr>receivingPrimingReport := True\<rparr> else s);
            (shouldReportAttribute, previousValue, s') =
              (if attributeError \<noteq> None
               then
                 let (previousValue, s2) = cachedAttributeValueForPath attributePath s1;
                     s3 = s2\<lparr>expectedValueCache := AList.delete attributePath (expectedValueCache s2)\<rparr>
                 in (True, previousValue, setCachedAttributeValue None attributePath s3)
               else
                 let newVersion = (case attributeDataValue0 of None \<Rightarrow> None
                                   | Some d \<Rightarrow> dataVersionKey d);
                     clusterPath = clusterPathWithEndpointID (endpoint attributePath)
                                     (cluster attributePath);
                     attributeDataValue =
                       (if newVersion \<noteq> None then dataValueWithoutDataVersion attributeDataValue0
                        else attributeDataValue0);
                     (previousValue, s2) = cachedAttributeValueForPath attributePath s1;
                     readCacheValueChanged =
                       (\<not> attributeDataValueIsEqualToDataValue attributeDataValue previousValue);
                     s5 = (if readCacheValueChanged
                           then
                             let s3 = (case newVersion of
                                         Some v \<Rightarrow> noteDataVersion v clusterPath s2
                                       | None \<Rightarrow> s2);
                                 s4 = setCachedAttributeValue attributeDataValue attributePath s3
                             in if \<not> deviceConfigurationChanged s4
                                then s4\<lparr>deviceConfigurationChanged :=
                                          attributeAffectsDeviceConfiguration c attributePath\<rparr>
                                else s4
                           else s2);
                     expectedValue = map_of (expectedValueCache s5) attributePath
                 in (readCacheValueChanged \<and> expectedValue = None, previousValue, s5))
        in if shouldReportAttribute
           then (s', attributesToReport @
                   [if previousValue \<noteq> None
                    then attributeResponseValue\<lparr>previousDataKey := previousValue\<rparr>
                    else attributeResponseValue])
           else (s', attributesToReport))"

definition getAttributesToReportWithReportedValues ::
  "MTRClusterConstants \<Rightarrow> MTRAttributeResponse list \<Rightarrow> MTRDevice
     \<Rightarrow> MTRAttributeResponse list \<times> MTRDevice" where
  "getAttributesToReportWithReportedValues c reportedAttributeValues s =
     (let (s', attributesToReport) =
            fold (reportedValueStep c) reportedAttributeValues (s, [])
      in (attributesToReport, s'))"

definition handleAttributeReport :: "MTRClusterConstants \<Rightarrow> MTRAttributeResponse list \<Rightarrow> MTRDevice \<Rightarrow> MTRDevice" where
  "handleAttributeReport c attributeReport s =
     (let (attributesToReport, s') = getAttributesToReportWithReportedValues c attributeReport s
      in reportAttributes attributesToReport s')"

text \<open>
  One round of the loop of \<^verbatim>\<open>_handleEventReport:\<close>: an event without a time type, or
  of system-up-time type without the time, is skipped; the others are tagged with
  \<^verbatim>\<open>MTREventIsHistoricalKey\<close> and added to the report.
\<close>

definition eventReportStep :: "MTRDevice \<Rightarrow> MTREventReport \<Rightarrow> MTREventReport list \<Rightarrow> MTREventReport list" where
  "eventReportStep s eventDict reportToReturn =
     (case eventTimeTypeKey eventDict of
        None \<Rightarrow> reportToReturn
      | Some eventTimeType \<Rightarrow>
          if eventTimeType = MTREventTimeTypeSystemUpTime \<and> eventSystemUpTimeKey eventDict = None
          then reportToReturn
          else reportToReturn @
                 [eventDict\<lparr>eventIsHistoricalKey :=
                    Some (if receivingPrimingReport s then True else False)\<rparr>])"

definition handleEventReport :: "MTREventReport list \<Rightarrow> MTRDevice \<Rightarrow> MTRDevice" where
  "handleEventReport eventReport s =
     (let reportToReturn =
            fold (eventReportStep s) eventReport
              (case unreportedEvents s of Some unreported \<Rightarrow> unreported | None \<Rightarrow> [])
      in if weakDelegate s
         then dispatch (DelegateReceivedEventReport reportToReturn) (s\<lparr>unreportedEvents := None\<rparr>)
         else s\<lparr>unreportedEvents := Some reportToReturn\<rparr>)"

subsection \<open>The expected-value cache\<close>

text \<open>
  \<^verbatim>\<open>_setExpectedValue:attributePath:expirationTime:shouldReportValue:attributeValueToReport:expectedValueID:previousValue:\<close>.
  The three out-parameters are returned with the device: whether to report, the value to
  report and the previous value (\<^verbatim>\<open>nil\<close> where the code does not assign them). With a
  value the entry is stored under \<open>expectedValueID\<close>; without one the call asks for the
  removal of the entry stored under \<open>expectedValueID\<close>. The callers pass no expiration
  time only when they pass no value.
\<close>

definition setExpectedValue ::
  "dict option \<Rightarrow> MTRAttributePath \<Rightarrow> NSDate option \<Rightarrow> 64 word \<Rightarrow> MTRDevice
     \<Rightarrow> (bool \<times> dict option \<times> dict option) \<times> MTRDevice" where
  "setExpectedValue expectedAttributeValue attributePath expirationTime expectedValueID s =
     (let (outs, s1) =
        (case map_of (expectedValueCache s) attributePath of
           Some (previousExpiration, previousExpectedValue, previousExpectedValueID) \<Rightarrow>
             if expectedAttributeValue \<noteq> None \<and>
                \<not> attributeDataValueIsEqualToDataValue expectedAttributeValue
                    (Some previousExpectedValue)
             then ((True, expectedAttributeValue, Some previousExpectedValue), s)
             else if expectedAttributeValue = None
             then
               (if previousExpectedValueID = expectedValueID
                then
                  let (cachedValue, s') = cachedAttributeValueForPath attributePath s
                  in if \<not> attributeDataValueIsEqualToDataValue (Some previousExpectedValue)
                            cachedValue
                     then ((True, cachedValue, Some previousExpectedValue),
                           s'\<lparr>expectedValueCache :=
                                AList.delete attributePath (expectedValueCache s')\<rparr>)
                     else ((False, None, None), s')
                else ((False, None, None), s))
             else ((False, None, None), s)
         | None \<Rightarrow>
             let (cachedValue, s') = cachedAttributeValueForPath attributePath s
             in if expectedAttributeValue \<noteq> None \<and>
                   \<not> attributeDataValueIsEqualToDataValue expectedAttributeValue cachedValue
                then ((True, expectedAttributeValue, cachedValue), s')
                else ((False, None, None), s'))
      in case (expectedAttributeValue, expirationTime) of
           (Some v, Some t) \<Rightarrow>
             (outs, s1\<lparr>expectedValueCache :=
                        AList.update attributePath (t, v, expectedValueID) (expectedValueCache s1)\<rparr>)
         | _ \<Rightarrow> (outs, s1))"

text \<open>
  An expected value as \<^verbatim>\<open>setExpectedValues:expectedValueInterval:\<close> takes it: a
  response-value dictionary with its \<^verbatim>\<open>MTRAttributePathKey\<close> and its \<^verbatim>\<open>MTRDataKey\<close>.
\<close>

type_synonym expected_attribute_value = "MTRAttributePath \<times> dict"

definition newExpectedValueStep ::
  "NSDate \<Rightarrow> 64 word \<Rightarrow> expected_attribute_value \<Rightarrow> MTRDevice \<times> MTRAttributeResponse list
     \<Rightarrow> MTRDevice \<times> MTRAttributeResponse list" where
  "newExpectedValueStep expirationTime expectedValueIDToReturn attributeResponseValue acc =
     (let (s, attributesToReport) = acc;
          (attributePath, attributeDataValue) = attributeResponseValue;
          ((shouldReportValue, attributeValueToReport, previousValue), s') =
            setExpectedValue (Some attributeDataValue) attributePath (Some expirationTime)
              expectedValueIDToReturn s
      in if shouldReportValue
         then (s', attributesToReport @
                 [\<lparr> attributePathKey = attributePath, attributeDataKey = attributeValueToReport,
                     attributeErrorKey = None, previousDataKey = previousValue \<rparr>])
         else (s', attributesToReport))"

definition getAttributesToReportWithNewExpectedValues ::
  "expected_attribute_value list \<Rightarrow> NSDate \<Rightarrow> MTRDevice
     \<Rightarrow> (MTRAttributeResponse list \<times> 64 word) \<times> MTRDevice" where
  "getAttributesToReportWithNewExpectedValues expectedAttributeValues expirationTime s =
     (let expectedValueIDToReturn = expectedValueNextID s;
          s0 = s\<lparr>expectedValueNextID := expectedValueNextID s + 1\<rparr>;
          (s', attributesToReport) =
            fold (newExpectedValueStep expirationTime expectedValueIDToReturn)
              expectedAttributeValues (s0, [])
      in ((attributesToReport, expectedValueIDToReturn), s'))"

definition MTR_DEVICE_EXPIRATION_CHECK_TIMER_MINIMUM_WAIT_TIME :: NSTimeInterval where
  "MTR_DEVICE_EXPIRATION_CHECK_TIMER_MINIMUM_WAIT_TIME = 1 / 10"

text \<open>
  The first loop of \<^verbatim>\<open>_checkExpiredExpectedValues\<close>, over the keys of the cache: the
  expired \<^verbatim>\<open>[path, value]\<close> pairs and the earliest expiration date of the others.
\<close>

definition expirationScanStep ::
  "NSDate \<Rightarrow> (MTRAttributePath \<times> expected_value) list \<Rightarrow> MTRAttributePath
     \<Rightarrow> (MTRAttributePath \<times> dict) list \<times> NSDate option
     \<Rightarrow> (MTRAttributePath \<times> dict) list \<times> NSDate option" where
  "expirationScanStep now cache attributePath acc =
     (let (attributeInfoToRemove, nextExpirationDate) = acc
      in case map_of cache attributePath of
           None \<Rightarrow> acc
         | Some (attributeExpirationDate, v, expectedValueID) \<Rightarrow>
             if now > attributeExpirationDate
             then (attributeInfoToRemove @ [(attributePath, v)], nextExpirationDate)
             else (attributeInfoToRemove,
                   (case nextExpirationDate of
                      None \<Rightarrow> Some attributeExpirationDate
                    | Some next \<Rightarrow>
                        if next > attributeExpirationDate then Some attributeExpirationDate
                        else Some next)))"

text \<open>The second loop: report the cached value where it differs, and drop the entry.\<close>

definition expirationRemoveStep ::
  "MTRAttributePath \<times> dict \<Rightarrow> MTRDevice \<times> MTRAttributeResponse list
     \<Rightarrow> MTRDevice \<times> MTRAttributeResponse list" where
  "expirationRemoveStep attributeInfo acc =
     (let (s, attributesToReport) = acc;
          (attributePath, attributeDataValue) = attributeInfo;
          (cachedAttributeDataValue, s') = cachedAttributeValueForPath attributePath s;
          attributesToReport' =
            (if cachedAttributeDataValue \<noteq> None \<and>
                \<not> attributeDataValueIsEqualToDataValue (Some attributeDataValue)
                    cachedAttributeDataValue
             then attributesToReport @
                    [\<lparr> attributePathKey = attributePath,
                        attributeDataKey = cachedAttributeDataValue,
                        attributeErrorKey = None,
                        previousDataKey = Some attributeDataValue \<rparr>]
             else attributesToReport)
      in (s'\<lparr>expectedValueCache := AList.delete attributePath (expectedValueCache s')\<rparr>,
          attributesToReport'))"

definition checkExpiredExpectedValues :: "NSDate \<Rightarrow> MTRDevice \<Rightarrow> MTRDevice" where
  "checkExpiredExpectedValues now s =
     (let (attributeInfoToRemove, nextExpirationDate) =
            fold (expirationScanStep now (expectedValueCache s))
              (remdups (map fst (expectedValueCache s))) ([], None);
          (s1, attributesToReport) = fold expirationRemoveStep attributeInfoToRemove (s, []);
          s2 = reportAttributes attributesToReport s1
      in case nextExpirationDate of
           Some next \<Rightarrow>
             if expectedValueCache s2 \<noteq> [] \<and> \<not> expirationCheckScheduled s2
             then dispatch
                    (DispatchAfter
                       (if next - now < MTR_DEVICE_EXPIRATION_CHECK_TIMER_MINIMUM_WAIT_TIME
                        then MTR_DEVICE_EXPIRATION_CHECK_TIMER_MINIMUM_WAIT_TIME
                        else next - now)
                       PerformScheduledExpirationCheck) s2
             else s2
         | None \<Rightarrow> s2)"

definition performScheduledExpirationCheck :: "NSDate \<Rightarrow> MTRDevice \<Rightarrow> MTRDevice" where
  "performScheduledExpirationCheck now s =
     checkExpiredExpectedValues now (s\<lparr>expirationCheckScheduled := False\<rparr>)"

text \<open>
  \<^verbatim>\<open>setExpectedValues:expectedValueInterval:expectedValueID:\<close> reads the clock twice:
  \<open>now\<close> is the instant of \<^verbatim>\<open>dateWithTimeIntervalSinceNow:\<close>, read for the expiration
  time before the lock is taken, and \<open>checkTime\<close> is the instant that
  \<^verbatim>\<open>_checkExpiredExpectedValues\<close> reads at the end of the call. The interval is in
  milliseconds.
\<close>

definition setExpectedValues ::
  "expected_attribute_value list \<Rightarrow> rat \<Rightarrow> NSDate \<Rightarrow> NSDate \<Rightarrow> MTRDevice
     \<Rightarrow> 64 word \<times> MTRDevice" where
  "setExpectedValues values expectedValueInterval now checkTime s =
     (let expirationTime = now + expectedValueInterval / 1000;
          ((attributesToReport, expectedValueID), s1) =
            getAttributesToReportWithNewExpectedValues values expirationTime s;
          s2 = reportAttributes attributesToReport s1
      in (expectedValueID, checkExpiredExpectedValues checkTime s2))"

definition removeExpectedValueForAttributePath :: "MTRAttributePath \<Rightarrow> 64 word \<Rightarrow> MTRDevice \<Rightarrow> MTRDevice" where
  "removeExpectedValueForAttributePath attributePath expectedValueID s =
     (let ((shouldReportValue, attributeValueToReport, previousValue), s') =
            setExpectedValue None attributePath None expectedValueID s
      in if shouldReportValue
         then reportAttributes
                [\<lparr> attributePathKey = attributePath, attributeDataKey = attributeValueToReport,
                    attributeErrorKey = None, previousDataKey = previousValue \<rparr>] s'
         else s')"

definition removeExpectedValuesForAttributePaths :: "MTRAttributePath list \<Rightarrow> 64 word \<Rightarrow> MTRDevice \<Rightarrow> MTRDevice" where
  "removeExpectedValuesForAttributePaths attributePaths expectedValueID s =
     fold (\<lambda>attributePath. removeExpectedValueForAttributePath attributePath expectedValueID)
       attributePaths s"

text \<open>
  \<^verbatim>\<open>_attributeValueDictionaryForAttributePath:\<close>: the expected value unless it has
  expired (then it is purged), else the value of the read cache.
\<close>

definition attributeValueDictionaryForAttributePath ::
  "MTRAttributePath \<Rightarrow> NSDate \<Rightarrow> MTRDevice \<Rightarrow> dict option \<times> MTRDevice" where
  "attributeValueDictionaryForAttributePath attributePath now s =
     (case map_of (expectedValueCache s) attributePath of
        Some (expiration, v, expectedValueID) \<Rightarrow>
          if now > expiration
          then cachedAttributeValueForPath attributePath
                 (s\<lparr>expectedValueCache := AList.delete attributePath (expectedValueCache s)\<rparr>)
          else (Some v, s)
      | None \<Rightarrow> cachedAttributeValueForPath attributePath s)"

subsection \<open>Reads, writes and invokes\<close>


definition MTRClampedNumber :: "rat \<Rightarrow> rat \<Rightarrow> rat \<Rightarrow> rat" where
  "MTRClampedNumber aNumber lo hi =
     (if aNumber < lo then lo else if aNumber > hi then hi else aNumber)"

definition UINT16_MAX :: rat where "UINT16_MAX = 65535"

definition UINT32_MAX :: rat where "UINT32_MAX = 4294967295"

definition MTRDEVICE_MIN_RESUBSCRIBE_DUE_TO_READ_INTERVAL_SECONDS :: NSTimeInterval where
  "MTRDEVICE_MIN_RESUBSCRIBE_DUE_TO_READ_INTERVAL_SECONDS = 10 * 60"

definition subscriptionAbleToReport :: "MTRDevice \<Rightarrow> bool" where
  "subscriptionAbleToReport s =
     (if \<not> weakDelegate s then False
      else if deviceControllerIsOverXPC s then False
      else True)"

definition readThroughSkipped :: "NSDate \<Rightarrow> MTRDevice \<Rightarrow> MTRDevice" where
  "readThroughSkipped now s =
     (if state s = MTRDeviceStateReachable then s
      else case lastSubscriptionFailureTime s of
             None \<Rightarrow> s
           | Some failureTime \<Rightarrow>
               if now - failureTime < MTRDEVICE_MIN_RESUBSCRIBE_DUE_TO_READ_INTERVAL_SECONDS then s
               else dispatch TriggerResubscribe s)"



text \<open>
  The duplicate check handlers of the work items, with \<^verbatim>\<open>(isDuplicate, stop)\<close> as result;
  \<^verbatim>\<open>isDuplicate\<close> is \<^verbatim>\<open>NO\<close> where the handler does not assign it. A read item knows a
  duplicate among its requests; a write and an invoke say "no duplicate, stop".
\<close>

fun duplicateCheckHandler :: "MTRAsyncWorkItem \<Rightarrow> read_request \<Rightarrow> bool \<times> bool" where
  "duplicateCheckHandler (ReadWorkItem readRequests) opaqueItemData =
     (if opaqueItemData \<in> set readRequests then (True, True) else (False, False))"
| "duplicateCheckHandler (WriteWorkItem writeRequests) opaqueItemData = (False, True)"
| "duplicateCheckHandler (InvokeWorkItem request) opaqueItemData = (False, True)"

text \<open>
  Modelled from the spec: \<^verbatim>\<open>-[MTRAsyncWorkQueue hasDuplicateForTypeID:workItemData:]\<close>
  and \<^verbatim>\<open>-[MTRAsyncWorkQueue enqueueWorkItem:]\<close> are not among the sources. As the
  specification describes the work queue: the queue is FIFO; before a read is enqueued
  every queued item is put to the duplicate check, and the new read is a duplicate if any
  of them matches. The specification says nothing of an order of the search nor of the
  \<^verbatim>\<open>stop\<close> answer of the handlers, and the search here uses neither. All items of the device
  use the one duplicate type \<^verbatim>\<open>MTRDeviceWorkItemDuplicateReadTypeID\<close>.
\<close>

definition hasDuplicateForTypeID :: "MTRAsyncWorkItem list \<Rightarrow> read_request \<Rightarrow> bool" where
  "hasDuplicateForTypeID items workItemData =
     list_ex (\<lambda>item. fst (duplicateCheckHandler item workItemData)) items"

definition enqueueWorkItem :: "MTRAsyncWorkItem \<Rightarrow> MTRDevice \<Rightarrow> MTRDevice" where
  "enqueueWorkItem workItem s = s\<lparr>asyncWorkQueue := asyncWorkQueue s @ [workItem]\<rparr>"

text \<open>
  \<^verbatim>\<open>readAttributeWithEndpointID:clusterID:attributeID:params:\<close>: the value returned,
  and the device after the call. \<open>now\<close> is the instant that
  \<^verbatim>\<open>_attributeValueDictionaryForAttributePath:\<close> reads and \<open>skipTime\<close> the instant
  that \<^verbatim>\<open>_readThroughSkipped\<close> reads.
\<close>

definition readAttributeWithEndpointID ::
  "MTRClusterConstants \<Rightarrow> nat \<Rightarrow> nat \<Rightarrow> nat \<Rightarrow> MTRReadParams option \<Rightarrow> NSDate \<Rightarrow> NSDate
     \<Rightarrow> MTRDevice \<Rightarrow> dict option \<times> MTRDevice" where
  "readAttributeWithEndpointID c endpointID clusterID attributeID params now skipTime s =
     (let attributePath = AttributePath endpointID clusterID attributeID;
          attributeIsSpecified = MTRAttributeIsSpecified c clusterID attributeID;
          hasChangesOmittedQuality =
            (if attributeIsSpecified then AttributeHasChangesOmittedQuality c attributePath
             else case params of
                    None \<Rightarrow> False
                  | Some p \<Rightarrow> \<not> assumeUnknownAttributesReportable p);
          (attributeValueToReturn, s1) =
            attributeValueDictionaryForAttributePath attributePath now s
      in if \<not> subscriptionAbleToReport s1 \<or> hasChangesOmittedQuality
         then
           let readRequestPath = AttributePath endpointID clusterID attributeID;
               readRequestData = (readRequestPath, params)
           in if hasDuplicateForTypeID (asyncWorkQueue s1) readRequestData
              then (attributeValueToReturn, s1)
              else (attributeValueToReturn, enqueueWorkItem (ReadWorkItem [readRequestData]) s1)
         else (attributeValueToReturn, readThroughSkipped skipTime s1))"

text \<open>
  \<^verbatim>\<open>writeAttributeWithEndpointID:...:timedWriteTimeout:\<close> up to the enqueueing of the
  work item; \<open>now\<close> and \<open>checkTime\<close> are the two instants that the installation of the
  expected value reads.
\<close>

definition writeAttributeWithEndpointID ::
  "nat \<Rightarrow> nat \<Rightarrow> nat \<Rightarrow> dict \<Rightarrow> rat \<Rightarrow> rat option \<Rightarrow> NSDate \<Rightarrow> NSDate \<Rightarrow> MTRDevice
     \<Rightarrow> MTRDevice" where
  "writeAttributeWithEndpointID endpointID clusterID attributeID v expectedValueInterval
       timeout now checkTime s =
     (let timeout' = (case timeout of
                        Some t \<Rightarrow> Some (MTRClampedNumber t 1 UINT16_MAX)
                      | None \<Rightarrow> None);
          expectedValueInterval' = MTRClampedNumber expectedValueInterval 1 UINT32_MAX;
          attributePath = AttributePath endpointID clusterID attributeID;
          (expectedValueID, s1) =
            setExpectedValues [(attributePath, v)] expectedValueInterval' now checkTime s;
          writeData = (attributePath, v, timeout', expectedValueID)
      in enqueueWorkItem (WriteWorkItem [writeData]) s1)"

text \<open>
  \<^verbatim>\<open>_invokeCommandWithEndpointID:...:completion:\<close> up to the enqueueing of the work
  item. The interval and the timeout are in milliseconds, \<open>None\<close> when nil. \<open>now\<close> is
  the instant read for the cut-off time; \<open>expectedNow\<close> and \<open>checkTime\<close> are the two
  instants that the installation of the expected values reads after it.
\<close>

definition invokeCommandWithEndpointID ::
  "MTRClusterConstants \<Rightarrow> nat \<Rightarrow> nat \<Rightarrow> nat \<Rightarrow> obj \<Rightarrow> expected_attribute_value list option
     \<Rightarrow> rat option \<Rightarrow> rat option \<Rightarrow> rat option \<Rightarrow> NSDate \<Rightarrow> NSDate \<Rightarrow> NSDate \<Rightarrow> MTRDevice
     \<Rightarrow> MTRDevice" where
  "invokeCommandWithEndpointID c endpointID clusterID commandID commandFields expectedValues
       expectedValueInterval timeout serverSideProcessingTimeout now expectedNow checkTime s =
     (let (expectedValues', expectedValueInterval') =
            (case expectedValueInterval of
               None \<Rightarrow> (None, None)
             | Some interval \<Rightarrow>
                 if interval < 0 then (None, Some interval)
                 else (expectedValues, Some (MTRClampedNumber interval 1 UINT32_MAX)));
          timeout' = (if timeout = None \<and> MTRCommandNeedsTimedInvoke c clusterID commandID
                      then Some (MTR_DEFAULT_TIMED_INTERACTION_TIMEOUT_MS c) else timeout);
          timed = (case timeout' of
                     Some t \<Rightarrow> Some (t, now + t / 1000)
                   | None \<Rightarrow> None);
          (expectedValueID, attributePaths, s1) =
            (case (expectedValues', expectedValueInterval') of
               (Some values, Some interval) \<Rightarrow>
                 let (expectedValueID, s1) =
                       setExpectedValues values interval expectedNow checkTime s
                 in (expectedValueID, Some (map fst values), s1)
             | _ \<Rightarrow> (0, None, s))
      in enqueueWorkItem
           (InvokeWorkItem
              \<lparr> invokeEndpointID = endpointID, invokeClusterID = clusterID,
                invokeCommandID = commandID, invokeCommandFields = commandFields,
                invokeExpectedValues = expectedValues', invokeAttributePaths = attributePaths,
                invokeExpectedValueID = expectedValueID, invokeTimed = timed,
                invokeServerSideProcessingTimeout = serverSideProcessingTimeout \<rparr>) s1)"

text \<open>The \<^verbatim>\<open>workDone\<close> block of the invoke work item's ready handler.\<close>

definition workDone :: "invoke_request \<Rightarrow> obj list option \<Rightarrow> NSError option \<Rightarrow> MTRDevice \<Rightarrow> MTRDevice" where
  "workDone request values error s =
     (let s1 = dispatch (InvokeCompletion values error) s;
          s2 = (case (error, invokeExpectedValues request, invokeAttributePaths request) of
                  (Some e, Some expected, Some attributePaths) \<Rightarrow>
                    removeExpectedValuesForAttributePaths attributePaths
                      (invokeExpectedValueID request) s1
                | _ \<Rightarrow> s1)
      in dispatch (WorkCompletion MTRAsyncWorkComplete) s2)"

text \<open>
  The ready handler of the invoke work item, up to the call of the base device; \<open>now\<close>
  is the instant at which the item became ready.
\<close>

definition invokeReadyHandler :: "invoke_request \<Rightarrow> NSDate \<Rightarrow> MTRDevice \<Rightarrow> MTRDevice" where
  "invokeReadyHandler request now s =
     (case invokeTimed request of
        Some (timeout, cutoffTime) \<Rightarrow>
          if now > cutoffTime
          then workDone request None (Some MTRInteractionErrorCodeTimeout) s
          else dispatch (BaseDeviceInvokeCommand (Some ((cutoffTime - now) * 1000))) s
      | None \<Rightarrow> dispatch (BaseDeviceInvokeCommand None) s)"

subsection \<open>The cache-primed predicate and the delegate\<close>

text \<open>
  The loop of \<^verbatim>\<open>_isCachePrimedWithInitialConfigurationData\<close> over the parts list.
  \<open>None\<close> is the exception raised when an element of the list is not a dictionary and
  is subscripted with \<^verbatim>\<open>MTRDataKey\<close>. An attribute path has an unsigned endpoint: a
  negative number names no cached cluster.
\<close>

fun partsListLoop :: "MTRClusterConstants \<Rightarrow> obj list \<Rightarrow> MTRDevice \<Rightarrow> bool option \<times> MTRDevice" where
  "partsListLoop c [] s = (Some True, s)"
| "partsListLoop c (endpointDictionary # rest) s =
     (case endpointDictionary of
        NSDictionary d \<Rightarrow>
          (case dataKey d of
             Some (NSDictionary endpointDataValue) \<Rightarrow>
               if \<not> isEqual (Some MTRUnsignedIntegerValueType) (typeKey endpointDataValue)
               then partsListLoop c rest s
               else
                 (case valueKey endpointDataValue of
                    Some (NSNumber endpointNumber) \<Rightarrow>
                      let (descriptorDeviceTypeListDataValue, s') =
                            (if endpointNumber < 0 then (None, s)
                             else cachedAttributeValueForPath
                                    (AttributePath (nat endpointNumber)
                                       (MTRClusterIDTypeDescriptorID c)
                                       (MTRAttributeIDTypeClusterDescriptorAttributeDeviceTypeListID c))
                                    s)
                      in (case descriptorDeviceTypeListDataValue of
                            None \<Rightarrow> (Some False, s')
                          | Some deviceTypeList \<Rightarrow>
                              if \<not> isEqual (Some MTRArrayValueType) (typeKey deviceTypeList) \<or>
                                 valueKey deviceTypeList = None
                              then (Some False, s')
                              else partsListLoop c rest s')
                  | _ \<Rightarrow> partsListLoop c rest s)
           | _ \<Rightarrow> partsListLoop c rest s)
      | _ \<Rightarrow> (None, s))"

definition isCachePrimedWithInitialConfigurationData ::
  "MTRClusterConstants \<Rightarrow> MTRDevice \<Rightarrow> bool option \<times> MTRDevice" where
  "isCachePrimedWithInitialConfigurationData c s =
     (let (rootDescriptorPartsListDataValue, s') =
            cachedAttributeValueForPath
              (AttributePath (kRootEndpointId c) (MTRClusterIDTypeDescriptorID c)
                 (MTRAttributeIDTypeClusterDescriptorAttributePartsListID c)) s
      in case rootDescriptorPartsListDataValue of
           None \<Rightarrow> (Some False, s')
         | Some partsListDataValue \<Rightarrow>
             if \<not> isEqual (Some MTRArrayValueType) (typeKey partsListDataValue)
             then (Some False, s')
             else
               (case valueKey partsListDataValue of
                  Some (NSArray partsList) \<Rightarrow>
                    if partsList = [] then (Some False, s')
                    else partsListLoop c partsList s'
                | _ \<Rightarrow> (Some False, s')))"

text \<open>
  \<^verbatim>\<open>setDelegate:queue:\<close> with a delegate that is alive; \<open>None\<close> when the predicate
  raised.
\<close>

definition setDelegate :: "MTRClusterConstants \<Rightarrow> MTRDevice \<Rightarrow> MTRDevice option" where
  "setDelegate c s0 =
     (let s = s0\<lparr>weakDelegate := True\<rparr>
      in if \<not> delegateDeviceCachePrimedCalled s
         then
           (case isCachePrimedWithInitialConfigurationData c s of
              (None, s') \<Rightarrow> None
            | (Some primed, s') \<Rightarrow>
                Some (setupSubscription
                        (if primed then callDelegateDeviceCachePrimed s' else s')))
         else Some (setupSubscription s))"

subsection \<open>Auxiliary notions for the caches\<close>

text \<open>What \<^verbatim>\<open>_clusterDataForPath:\<close> answers, and the data version it carries.\<close>

definition clusterView :: "MTRDevice \<Rightarrow> MTRClusterPath \<Rightarrow> MTRDeviceClusterData option" where
  "clusterView s clusterPath = fst (clusterDataForPath clusterPath s)"

definition clusterDataVersion :: "MTRDevice \<Rightarrow> MTRClusterPath \<Rightarrow> nat option" where
  "clusterDataVersion s clusterPath =
     (case clusterView s clusterPath of None \<Rightarrow> None | Some d \<Rightarrow> dataVersion d)"

text \<open>The value of the read cache for a path.\<close>

definition cachedValue :: "MTRDevice \<Rightarrow> MTRAttributePath \<Rightarrow> dict option" where
  "cachedValue s attributePath = fst (cachedAttributeValueForPath attributePath s)"

text \<open>
  The operations on the expected-value cache: insertion of a batch for an interval (in
  milliseconds) with the two instants it reads, removal of a batch by its ID, and the
  scheduled expiry check at an instant.
\<close>

datatype expected_value_op =
    SetExpectedValues "expected_attribute_value list" rat NSDate NSDate
  | RemoveExpectedValues "MTRAttributePath list" "64 word"
  | ExpirationCheck NSDate

fun applyOp :: "expected_value_op \<Rightarrow> MTRDevice \<Rightarrow> MTRDevice" where
  "applyOp (SetExpectedValues values interval now checkTime) s =
     snd (setExpectedValues values interval now checkTime s)"
| "applyOp (RemoveExpectedValues attributePaths expectedValueID) s =
     removeExpectedValuesForAttributePaths attributePaths expectedValueID s"
| "applyOp (ExpirationCheck now) s = performScheduledExpirationCheck now s"

definition applyOps :: "expected_value_op list \<Rightarrow> MTRDevice \<Rightarrow> MTRDevice" where
  "applyOps ops s = fold applyOp ops s"

text \<open>
  A report batch between its begin and its end: attribute reports and event reports, in
  the order of arrival.
\<close>

datatype report_item =
    AttributeReport "MTRAttributeResponse list"
  | EventReport "MTREventReport list"

fun handleReportItem :: "MTRClusterConstants \<Rightarrow> report_item \<Rightarrow> MTRDevice \<Rightarrow> MTRDevice" where
  "handleReportItem c (AttributeReport attributeReport) s = handleAttributeReport c attributeReport s"
| "handleReportItem c (EventReport eventReport) s = handleEventReport eventReport s"

text \<open>The events of a report that \<^verbatim>\<open>_handleEventReport:\<close> does not skip.\<close>

definition deliverable :: "MTREventReport \<Rightarrow> bool" where
  "deliverable eventDict \<longleftrightarrow>
     (case eventTimeTypeKey eventDict of
        None \<Rightarrow> False
      | Some eventTimeType \<Rightarrow>
          \<not> (eventTimeType = MTREventTimeTypeSystemUpTime \<and> eventSystemUpTimeKey eventDict = None))"

subsection \<open>Auxiliary notions for the back-off\<close>

text \<open>
  The wait that \<^verbatim>\<open>_handleSubscriptionReset:\<close> stores when the server gave no delay, as a
  function of the wait stored before.
\<close>

definition nextWait :: "32 word \<Rightarrow> 32 word" where
  "nextWait w = (if w < 1 then 1 else if w * 2 > 3600 then 3600 else w * 2)"

text \<open>The wait stored after \<open>n\<close> consecutive failures, in seconds.\<close>

fun waitAfter :: "nat \<Rightarrow> nat" where
  "waitAfter 0 = 0"
| "waitAfter (Suc n) = min 3600 (2 ^ n)"

text \<open>
  A device with a delegate that has failed \<open>n\<close> times in a row and is about to hear of
  the next attempt's outcome.
\<close>

definition retrying :: "nat \<Rightarrow> MTRDevice \<Rightarrow> bool" where
  "retrying n s \<longleftrightarrow>
     weakDelegate s \<and> \<not> reattemptingSubscription s \<and>
     unat (lastSubscriptionAttemptWait s) = waitAfter n"

text \<open>The entries that the expiry check finds expired.\<close>

definition expiredAt :: "NSDate \<Rightarrow> (MTRAttributePath \<times> expected_value) list \<Rightarrow> MTRAttributePath \<Rightarrow> bool" where
  "expiredAt now cache p \<longleftrightarrow>
     (case map_of cache p of Some (expiration, v, g) \<Rightarrow> now > expiration | None \<Rightarrow> False)"

text \<open>What a call has added to the effects of the device.\<close>

definition issued :: "MTRDevice \<Rightarrow> MTRDevice \<Rightarrow> effect list" where
  "issued s s' = drop (length (effects s)) (effects s')"

definition isBaseDeviceInvokeCommand :: "effect \<Rightarrow> bool" where
  "isBaseDeviceInvokeCommand e = (case e of BaseDeviceInvokeCommand t \<Rightarrow> True | _ \<Rightarrow> False)"

text \<open>A reported entry that passes the sanity check of the report intake.\<close>

definition carriesDataOrError :: "MTRAttributeResponse \<Rightarrow> bool" where
  "carriesDataOrError r \<longleftrightarrow> attributeDataKey r \<noteq> None \<or> attributeErrorKey r \<noteq> None"

text \<open>
  The value that the report intake compares with the read cache and stores: the reported
  data value, without its data version when it carries one.
\<close>

definition reportedDataValue :: "dict \<Rightarrow> dict option" where
  "reportedDataValue d =
     (if dataVersionKey d \<noteq> None then dataValueWithoutDataVersion (Some d) else Some d)"

subsection \<open>Example data\<close>

text \<open>
  Identifiers for the examples, numbered as in the Matter data model; the table of
  attributes with the changes-omitted quality names the two of General Diagnostics and the
  two of Time Synchronization.
\<close>

definition exampleConstants :: MTRClusterConstants where
  "exampleConstants =
     \<lparr> kRootEndpointId = 0,
       MTRClusterIDTypeDescriptorID = 29,
       MTRAttributeIDTypeClusterDescriptorAttributeDeviceTypeListID = 0,
       MTRAttributeIDTypeClusterDescriptorAttributeServerListID = 1,
       MTRAttributeIDTypeClusterDescriptorAttributePartsListID = 3,
       MTRAttributeIDTypeGlobalAttributeAcceptedCommandListID = 65529,
       MTRAttributeIDTypeGlobalAttributeAttributeListID = 65531,
       MTRAttributeIDTypeGlobalAttributeClusterRevisionID = 65533,
       MTRAttributeIDTypeGlobalAttributeFeatureMapID = 65532,
       changesOmittedAttributes = [(51, [2, 3]), (56, [0, 7])],
       MTRAttributeIsSpecified = (\<lambda>clusterID attributeID. True),
       MTRCommandNeedsTimedInvoke = (\<lambda>clusterID commandID. False),
       MTR_DEFAULT_TIMED_INTERACTION_TIMEOUT_MS = 10000 \<rparr>"

definition booleanValue :: "bool \<Rightarrow> dict" where
  "booleanValue b =
     Dict (Some MTRBooleanValueType) (Some (NSNumber (if b then 1 else 0))) None None"

definition unsignedIntegerValue :: "nat \<Rightarrow> dict" where
  "unsignedIntegerValue n =
     Dict (Some MTRUnsignedIntegerValueType) (Some (NSNumber (int n))) None None"

definition arrayValue :: "dict list \<Rightarrow> dict" where
  "arrayValue items =
     Dict (Some MTRArrayValueType)
       (Some (NSArray (map (\<lambda>d. NSDictionary (Dict None None (Some (NSDictionary d)) None)) items)))
       None None"

text \<open>
  A device with a delegate whose read cache holds the On/Off attribute of endpoint 1,
  off, at data version 7.
\<close>

definition onOffPath :: MTRAttributePath where
  "onOffPath = AttributePath 1 6 0"

definition onOffDevice :: MTRDevice where
  "onOffDevice =
     (initWithNodeID False)
       \<lparr>weakDelegate := True,
        clusterDataToPersist :=
          Some [((1, 6), \<lparr> dataVersion = Some 7, attributes = [0 \<mapsto> booleanValue False] \<rparr>)]\<rparr>"

text \<open>
  A device with a delegate whose read cache holds an empty parts list for the root
  endpoint: a node with no endpoint but the root.
\<close>

definition rootOnlyDevice :: MTRDevice where
  "rootOnlyDevice =
     (initWithNodeID False)
       \<lparr>weakDelegate := True,
        clusterDataToPersist :=
          Some [((0, 29), \<lparr> dataVersion = Some 1, attributes = [3 \<mapsto> arrayValue []] \<rparr>)]\<rparr>"

text \<open>
  A report of the up-time of General Diagnostics (an attribute with the changes-omitted
  quality in the table above), and an event stamped with a POSIX time.
\<close>

definition upTimeEntry :: MTRAttributeResponse where
  "upTimeEntry =
     \<lparr> attributePathKey = AttributePath 0 51 2,
       attributeDataKey = Some (unsignedIntegerValue 100),
       attributeErrorKey = None,
       previousDataKey = None \<rparr>"

definition posixTimeEvent :: MTREventReport where
  "posixTimeEvent =
     \<lparr> eventPathKey = (0, 40, 0),
       eventTimeTypeKey = Some MTREventTimeTypePosixTime,
       eventSystemUpTimeKey = None,
       eventIsHistoricalKey = None \<rparr>"

text \<open>A report of the On/Off attribute of endpoint 1 that carries a data version.\<close>

definition versionedBoolean :: "bool \<Rightarrow> nat \<Rightarrow> dict" where
  "versionedBoolean b v =
     Dict (Some MTRBooleanValueType) (Some (NSNumber (if b then 1 else 0))) None (Some v)"

definition onOffEntry :: "bool \<Rightarrow> nat \<Rightarrow> MTRAttributeResponse" where
  "onOffEntry b v =
     \<lparr> attributePathKey = onOffPath,
       attributeDataKey = Some (versionedBoolean b v),
       attributeErrorKey = None,
       previousDataKey = None \<rparr>"

section \<open>Properties\<close>

subsection \<open>Frame lemmas\<close>

lemma dispatch_simps [simp]:
  "weakDelegate (dispatch e s) = weakDelegate s"
  "reattemptingSubscription (dispatch e s) = reattemptingSubscription s"
  "lastSubscriptionAttemptWait (dispatch e s) = lastSubscriptionAttemptWait s"
  "effects (dispatch e s) = effects s @ [e]"
  by (simp_all add: dispatch_def)

lemma changeState_subscription [simp]:
  "weakDelegate (changeState st s) = weakDelegate s"
  "reattemptingSubscription (changeState st s) = reattemptingSubscription s"
  "lastSubscriptionAttemptWait (changeState st s) = lastSubscriptionAttemptWait s"
  by (simp_all add: changeState_def Let_def)

lemma handleSubscriptionError_subscription [simp]:
  "weakDelegate (handleSubscriptionError s) = weakDelegate s"
  "reattemptingSubscription (handleSubscriptionError s) = reattemptingSubscription s"
  "lastSubscriptionAttemptWait (handleSubscriptionError s) = lastSubscriptionAttemptWait s"
  by (simp_all add: handleSubscriptionError_def)

lemma setupSubscription_subscription [simp]:
  "weakDelegate (setupSubscription s) = weakDelegate s"
  "reattemptingSubscription (setupSubscription s) = reattemptingSubscription s"
  "lastSubscriptionAttemptWait (setupSubscription s) = lastSubscriptionAttemptWait s"
  by (simp_all add: setupSubscription_def)

subsection \<open>The cluster data store as a view\<close>

lemma clusterDataForPath_frame [simp]:
  "expectedValueCache (snd (clusterDataForPath cp s)) = expectedValueCache s"
  "expectedValueNextID (snd (clusterDataForPath cp s)) = expectedValueNextID s"
  "expirationCheckScheduled (snd (clusterDataForPath cp s)) = expirationCheckScheduled s"
  "clusterDataToPersist (snd (clusterDataForPath cp s)) = clusterDataToPersist s"
  "weakDelegate (snd (clusterDataForPath cp s)) = weakDelegate s"
  "receivingReport (snd (clusterDataForPath cp s)) = receivingReport s"
  "receivingPrimingReport (snd (clusterDataForPath cp s)) = receivingPrimingReport s"
  "deviceConfigurationChanged (snd (clusterDataForPath cp s)) = deviceConfigurationChanged s"
  "unreportedEvents (snd (clusterDataForPath cp s)) = unreportedEvents s"
  "effects (snd (clusterDataForPath cp s)) = effects s"
  "asyncWorkQueue (snd (clusterDataForPath cp s)) = asyncWorkQueue s"
  "delegateDeviceCachePrimedCalled (snd (clusterDataForPath cp s)) = delegateDeviceCachePrimedCalled s"
  "deviceControllerIsOverXPC (snd (clusterDataForPath cp s)) = deviceControllerIsOverXPC s"
  by (simp_all add: clusterDataForPath_def split: option.splits)

lemma dirtyClusterData_clusterDataForPath [simp]:
  "dirtyClusterData (snd (clusterDataForPath cp s)) = dirtyClusterData s"
  by (rule ext) (simp add: dirtyClusterData_def)

lemma clusterDataForPath_cases:
  obtains (same) "snd (clusterDataForPath cp s) = s"
  | (paged) p d where "persisted s = Some p" "dirtyClusterData s cp = None"
      "persistedClusterData p cp = None" "cp \<in> persistedClusters p"
      "controllerDataStore p cp = Some d"
      "snd (clusterDataForPath cp s) =
         s\<lparr>persisted := Some (p\<lparr>persistedClusterData := (persistedClusterData p)(cp \<mapsto> d)\<rparr>)\<rparr>"
proof (cases "dirtyClusterData s cp")
  case (Some a)
  then show ?thesis using same by (simp add: clusterDataForPath_def)
next
  case None
  note dirty = None
  show ?thesis
  proof (cases "persisted s")
    case None
    then show ?thesis using same dirty by (simp add: clusterDataForPath_def)
  next
    case (Some p)
    note pers = Some
    show ?thesis
    proof (cases "persistedClusterData p cp")
      case (Some a)
      then show ?thesis using same dirty pers by (simp add: clusterDataForPath_def)
    next
      case None
      note cache = None
      show ?thesis
      proof (cases "cp \<in> persistedClusters p")
        case False
        then show ?thesis using same dirty pers cache by (simp add: clusterDataForPath_def)
      next
        case True
        show ?thesis
        proof (cases "controllerDataStore p cp")
          case None
          then show ?thesis using same dirty pers cache True
            by (simp add: clusterDataForPath_def)
        next
          case (Some d)
          then show ?thesis using paged [of p d] dirty pers cache True
            by (simp add: clusterDataForPath_def)
        qed
      qed
    qed
  qed
qed

lemma clusterView_clusterDataForPath [simp]:
  "clusterView (snd (clusterDataForPath cp' s)) = clusterView s"
proof (rule ext)
  fix cp
  show "clusterView (snd (clusterDataForPath cp' s)) cp = clusterView s cp"
  proof (cases cp' s rule: clusterDataForPath_cases)
    case same
    then show ?thesis by simp
  next
    case (paged p d)
    then show ?thesis
      by (cases "cp = cp'")
         (simp_all add: clusterView_def clusterDataForPath_def dirtyClusterData_def
            split: option.splits)
  qed
qed

lemma cachedValue_clusterView:
  "cachedValue s p =
     (case clusterView s (clusterPathWithEndpointID (endpoint p) (cluster p)) of
        None \<Rightarrow> None | Some d \<Rightarrow> attributes d (attribute p))"
  by (simp add: cachedValue_def cachedAttributeValueForPath_def clusterView_def Let_def
      split_beta split: option.splits)

lemma snd_cachedAttributeValueForPath:
  "snd (cachedAttributeValueForPath p s) =
     snd (clusterDataForPath (clusterPathWithEndpointID (endpoint p) (cluster p)) s)"
  by (simp add: cachedAttributeValueForPath_def Let_def split_beta split: option.splits)

lemma fst_cachedAttributeValueForPath [simp]:
  "fst (cachedAttributeValueForPath p s) = cachedValue s p"
  by (simp add: cachedValue_def)

subsection \<open>Subscription back-off\<close>

lemma handleSubscriptionReset_None:
  assumes "weakDelegate s" "\<not> reattemptingSubscription s"
  shows "handleSubscriptionReset None now s =
     dispatch (DispatchAfter (of_nat (unat (nextWait (lastSubscriptionAttemptWait s))))
                 ReattemptSubscriptionNowIfNeeded)
      (s\<lparr>lastSubscriptionFailureTime := Some now, reattemptingSubscription := True,
         lastSubscriptionAttemptWait := nextWait (lastSubscriptionAttemptWait s)\<rparr>)"
  using assms
  by (simp add: handleSubscriptionReset_def Let_def nextWait_def
      MTRDEVICE_SUBSCRIPTION_ATTEMPT_MIN_WAIT_SECONDS_def
      MTRDEVICE_SUBSCRIPTION_ATTEMPT_MAX_WAIT_SECONDS_def)

text \<open>Doubling a wait of at most 3600 seconds does not wrap around in 32 bits.\<close>

lemma unat_nextWait:
  assumes "unat w = waitAfter n"
  shows "unat (nextWait w) = waitAfter (Suc n)"
proof (cases n)
  case 0
  with assms have "w = 0" by (simp add: unat_eq_0)
  then show ?thesis using 0 by (simp add: nextWait_def)
next
  case (Suc m)
  with assms have w: "unat w = min 3600 (2 ^ m)" by simp
  then have "0 < unat w" by (simp add: min_def)
  then have nz: "\<not> w < 1" by (simp add: word_less_nat_alt)
  have "unat w \<le> 3600" using w by simp
  then have dbl: "unat (w * 2) = unat w * 2"
    by (simp add: unat_word_ariths)
  have gt: "(w * 2 > 3600) = (unat w * 2 > 3600)"
    by (simp add: word_less_nat_alt dbl)
  show ?thesis
    using Suc w nz dbl gt by (auto simp add: nextWait_def min_def)
qed

lemma retrying_step:
  assumes "retrying n s"
  shows "retrying (Suc n)
           (reattemptSubscriptionNowIfNeeded (subscriptionAttemptFailed None now s))"
  using assms unat_nextWait [of "lastSubscriptionAttemptWait s" n]
  by (simp add: retrying_def subscriptionAttemptFailed_def handleSubscriptionReset_None
      reattemptSubscriptionNowIfNeeded_def)

lemma retrying_failedAttempts:
  "retrying n s \<Longrightarrow> retrying (n + length nows) (failedAttempts nows s)"
proof (induction nows arbitrary: n s)
  case Nil
  then show ?case by simp
next
  case (Cons now nows)
  from Cons.IH [OF retrying_step [OF Cons.prems, of now]] show ?case by simp
qed

lemma retrying_wait:
  assumes "retrying n s"
  shows "last (effects (subscriptionAttemptFailed None now s)) =
           DispatchAfter (of_nat (min 3600 (2 ^ n))) ReattemptSubscriptionNowIfNeeded"
  using assms unat_nextWait [of "lastSubscriptionAttemptWait s" n]
  by (simp add: retrying_def subscriptionAttemptFailed_def handleSubscriptionReset_None)

lemma lastSubscriptionAttemptWait_established:
  "lastSubscriptionAttemptWait (handleSubscriptionEstablished s) = 0"
  by (simp add: handleSubscriptionEstablished_def Let_def callDelegateDeviceCachePrimed_def
      callDelegateWithBlock_def stopConnectivityMonitoring_def scheduleNextUpdate_def)

text \<open>
  Claim C2. A device with a delegate starts with a stored wait of 0 (as after its creation
  or after a subscription was established). After \<open>k = length nows\<close> consecutive failed
  attempts without a server-provided delay, the next such failure schedules the reattempt
  \<open>min 3600 (2 ^ k)\<close> seconds later: 1 second at the first failure, then 2, 4, ... up to
  3600. When a subscription is established the stored wait is reset to 0.
\<close>

theorem backoff_wait_doubles_up_to_3600:
  assumes "weakDelegate s" and "\<not> reattemptingSubscription s"
    and "lastSubscriptionAttemptWait s = 0"
  shows "last (effects (subscriptionAttemptFailed None now (failedAttempts nows s))) =
           DispatchAfter (of_nat (min 3600 (2 ^ length nows))) ReattemptSubscriptionNowIfNeeded
       \<and> lastSubscriptionAttemptWait (handleSubscriptionEstablished s') = 0"
proof -
  from assms have "retrying 0 s" by (simp add: retrying_def)
  from retrying_failedAttempts [OF this, of nows]
  have "retrying (length nows) (failedAttempts nows s)" by simp
  from retrying_wait [OF this] lastSubscriptionAttemptWait_established
  show ?thesis by blast
qed

theorem backoff_wait_doubles_up_to_3600_witness:
  "last (effects (subscriptionAttemptFailed None 30
           (failedAttempts [10, 20] ((initWithNodeID False)\<lparr>weakDelegate := True\<rparr>)))) =
     DispatchAfter 4 ReattemptSubscriptionNowIfNeeded
   \<and> lastSubscriptionAttemptWait (handleSubscriptionEstablished
        (failedAttempts [10, 20] ((initWithNodeID False)\<lparr>weakDelegate := True\<rparr>))) = 0"
  using backoff_wait_doubles_up_to_3600
    [of "(initWithNodeID False)\<lparr>weakDelegate := True\<rparr>" 30 "[10, 20]"
        "failedAttempts [10, 20] ((initWithNodeID False)\<lparr>weakDelegate := True\<rparr>)"]
  by (simp add: initWithNodeID_def)

text \<open>
  The thirteenth failure in a row (scenario "back-off saturation"): the wait is clamped
  to 3600 seconds.
\<close>

lemma backoff_saturation:
  "last (effects (subscriptionAttemptFailed None 13
           (failedAttempts [1, 2, 3, 4, 5, 6, 7, 8, 9, 10, 11, 12]
              ((initWithNodeID False)\<lparr>weakDelegate := True\<rparr>)))) =
     DispatchAfter 3600 ReattemptSubscriptionNowIfNeeded"
proof -
  have "retrying 0 ((initWithNodeID False)\<lparr>weakDelegate := True\<rparr>)"
    by (simp add: retrying_def initWithNodeID_def)
  from retrying_wait [OF retrying_failedAttempts [OF this,
        of "[1, 2, 3, 4, 5, 6, 7, 8, 9, 10, 11, 12]"], of 13]
  show ?thesis by simp
qed

text \<open>
  Claim C4. The claim is what the comment on the server-delay branch of
  \<^verbatim>\<open>_handleSubscriptionReset:\<close> says: reset the back-off counter and retry after the time
  the device told. The method looks at the stored wait before it looks at the server's
  delay, so the branch is reached only with a stored wait of at least 1. For a device with
  a delegate and no reattempt pending: when the stored wait is at least 1, a failure with
  a server-provided delay \<open>d\<close> resets the stored wait to 0 and schedules the reattempt \<open>d\<close>
  seconds later; when the stored wait is 0 (a new device, a device whose subscription was
  established, a device whose last failure used the server's delay), the stored wait
  becomes 1 and the reattempt is scheduled 1 second later, whatever the server said.
\<close>

theorem server_delay_used_only_when_wait_stored:
  assumes "weakDelegate s" and "\<not> reattemptingSubscription s"
  shows "(1 \<le> lastSubscriptionAttemptWait s \<longrightarrow>
            lastSubscriptionAttemptWait (handleSubscriptionReset (Some d) now s) = 0 \<and>
            last (effects (handleSubscriptionReset (Some d) now s)) =
              DispatchAfter d ReattemptSubscriptionNowIfNeeded)
       \<and> (lastSubscriptionAttemptWait s = 0 \<longrightarrow>
            lastSubscriptionAttemptWait (handleSubscriptionReset (Some d) now s) = 1 \<and>
            last (effects (handleSubscriptionReset (Some d) now s)) =
              DispatchAfter 1 ReattemptSubscriptionNowIfNeeded)"
  using assms
  by (auto simp add: handleSubscriptionReset_def Let_def
      MTRDEVICE_SUBSCRIPTION_ATTEMPT_MIN_WAIT_SECONDS_def word_less_1 not_less)

text \<open>
  A new device with a delegate whose first attempt fails with a server-provided delay of
  5 seconds: the reattempt is scheduled 1 second later and the stored wait becomes 1. The
  same failure on a device with a stored wait of 8 uses the 5 seconds and resets the wait.
\<close>

theorem server_delay_used_only_when_wait_stored_witness:
  "lastSubscriptionAttemptWait (handleSubscriptionReset (Some 5) 100
      ((initWithNodeID False)\<lparr>weakDelegate := True\<rparr>)) = 1
   \<and> last (effects (handleSubscriptionReset (Some 5) 100
      ((initWithNodeID False)\<lparr>weakDelegate := True\<rparr>))) =
       DispatchAfter 1 ReattemptSubscriptionNowIfNeeded
   \<and> lastSubscriptionAttemptWait (handleSubscriptionReset (Some 5) 100
      ((initWithNodeID False)\<lparr>weakDelegate := True, lastSubscriptionAttemptWait := 8\<rparr>)) = 0
   \<and> last (effects (handleSubscriptionReset (Some 5) 100
      ((initWithNodeID False)\<lparr>weakDelegate := True, lastSubscriptionAttemptWait := 8\<rparr>))) =
       DispatchAfter 5 ReattemptSubscriptionNowIfNeeded"
  using server_delay_used_only_when_wait_stored
    [of "(initWithNodeID False)\<lparr>weakDelegate := True\<rparr>" 5 100]
    server_delay_used_only_when_wait_stored
    [of "(initWithNodeID False)\<lparr>weakDelegate := True, lastSubscriptionAttemptWait := 8\<rparr>" 5 100]
  by (simp add: initWithNodeID_def)

text \<open>
  The same through the block that a failed attempt runs, and for attempts that fail one
  after the other with the same server-provided delay of 5 seconds: the reattempts are
  scheduled 1, 5 and 1 seconds later, the server's delay being used at every other
  failure only.
\<close>

lemma server_delay_ignored_at_first_failure:
  "lastSubscriptionAttemptWait
     (subscriptionAttemptFailed (Some 5) 100 ((initWithNodeID False)\<lparr>weakDelegate := True\<rparr>)) = 1
   \<and> last (effects
     (subscriptionAttemptFailed (Some 5) 100 ((initWithNodeID False)\<lparr>weakDelegate := True\<rparr>))) =
       DispatchAfter 1 ReattemptSubscriptionNowIfNeeded"
  by (simp add: subscriptionAttemptFailed_def handleSubscriptionReset_def
      handleSubscriptionError_def Let_def initWithNodeID_def
      MTRDEVICE_SUBSCRIPTION_ATTEMPT_MIN_WAIT_SECONDS_def)

lemma server_delay_used_at_every_other_failure:
  "(let s1 = subscriptionAttemptFailed (Some 5) 100 ((initWithNodeID False)\<lparr>weakDelegate := True\<rparr>);
        s2 = subscriptionAttemptFailed (Some 5) 101 (reattemptSubscriptionNowIfNeeded s1);
        s3 = subscriptionAttemptFailed (Some 5) 106 (reattemptSubscriptionNowIfNeeded s2)
    in map (\<lambda>s. last (effects s)) [s1, s2, s3]) =
     [DispatchAfter 1 ReattemptSubscriptionNowIfNeeded,
      DispatchAfter 5 ReattemptSubscriptionNowIfNeeded,
      DispatchAfter 1 ReattemptSubscriptionNowIfNeeded]"
  by (simp add: subscriptionAttemptFailed_def handleSubscriptionReset_def
      handleSubscriptionError_def reattemptSubscriptionNowIfNeeded_def setupSubscription_def
      NeedToStartSubscriptionSetup_def changeState_def dispatch_def Let_def initWithNodeID_def
      MTRDEVICE_SUBSCRIPTION_ATTEMPT_MIN_WAIT_SECONDS_def)

subsection \<open>Expected-value operations leave the read cache alone\<close>

lemma dispatch_frame [simp]:
  "expectedValueCache (dispatch e s) = expectedValueCache s"
  "expectedValueNextID (dispatch e s) = expectedValueNextID s"
  "expirationCheckScheduled (dispatch e s) = expirationCheckScheduled s"
  "clusterDataToPersist (dispatch e s) = clusterDataToPersist s"
  "persisted (dispatch e s) = persisted s"
  "receivingReport (dispatch e s) = receivingReport s"
  "receivingPrimingReport (dispatch e s) = receivingPrimingReport s"
  "deviceConfigurationChanged (dispatch e s) = deviceConfigurationChanged s"
  "unreportedEvents (dispatch e s) = unreportedEvents s"
  "asyncWorkQueue (dispatch e s) = asyncWorkQueue s"
  "delegateDeviceCachePrimedCalled (dispatch e s) = delegateDeviceCachePrimedCalled s"
  "deviceControllerIsOverXPC (dispatch e s) = deviceControllerIsOverXPC s"
  "state (dispatch e s) = state s"
  by (simp_all add: dispatch_def)

lemma clusterView_cong:
  "clusterDataToPersist s' = clusterDataToPersist s \<Longrightarrow> persisted s' = persisted s
     \<Longrightarrow> clusterView s' = clusterView s"
  by (rule ext) (simp add: clusterView_def clusterDataForPath_def dirtyClusterData_def
      split: option.splits)

lemma clusterView_dispatch [simp]: "clusterView (dispatch e s) = clusterView s"
  by (rule clusterView_cong) simp_all

lemma clusterView_expectedValueCache_update [simp]:
  "clusterView (s\<lparr>expectedValueCache := x\<rparr>) = clusterView s"
  "clusterView (s\<lparr>expectedValueNextID := y\<rparr>) = clusterView s"
  "clusterView (s\<lparr>expirationCheckScheduled := z\<rparr>) = clusterView s"
  by (rule clusterView_cong; simp)+

lemma cachedValue_cong: "clusterView s' = clusterView s \<Longrightarrow> cachedValue s' = cachedValue s"
  by (rule ext) (simp add: cachedValue_clusterView)

lemma clusterView_cachedAttributeValueForPath [simp]:
  "clusterView (snd (cachedAttributeValueForPath p s)) = clusterView s"
  by (simp add: snd_cachedAttributeValueForPath)

lemma cachedAttributeValueForPath_frame [simp]:
  "expectedValueCache (snd (cachedAttributeValueForPath p s)) = expectedValueCache s"
  "expectedValueNextID (snd (cachedAttributeValueForPath p s)) = expectedValueNextID s"
  "expirationCheckScheduled (snd (cachedAttributeValueForPath p s)) = expirationCheckScheduled s"
  "clusterDataToPersist (snd (cachedAttributeValueForPath p s)) = clusterDataToPersist s"
  "weakDelegate (snd (cachedAttributeValueForPath p s)) = weakDelegate s"
  "receivingReport (snd (cachedAttributeValueForPath p s)) = receivingReport s"
  "receivingPrimingReport (snd (cachedAttributeValueForPath p s)) = receivingPrimingReport s"
  "deviceConfigurationChanged (snd (cachedAttributeValueForPath p s)) = deviceConfigurationChanged s"
  "unreportedEvents (snd (cachedAttributeValueForPath p s)) = unreportedEvents s"
  "effects (snd (cachedAttributeValueForPath p s)) = effects s"
  "asyncWorkQueue (snd (cachedAttributeValueForPath p s)) = asyncWorkQueue s"
  "delegateDeviceCachePrimedCalled (snd (cachedAttributeValueForPath p s)) = delegateDeviceCachePrimedCalled s"
  "deviceControllerIsOverXPC (snd (cachedAttributeValueForPath p s)) = deviceControllerIsOverXPC s"
  by (simp_all add: snd_cachedAttributeValueForPath)

lemma reportAttributes_frame [simp]:
  "expectedValueCache (reportAttributes as s) = expectedValueCache s"
  "expectedValueNextID (reportAttributes as s) = expectedValueNextID s"
  "expirationCheckScheduled (reportAttributes as s) = expirationCheckScheduled s"
  "clusterDataToPersist (reportAttributes as s) = clusterDataToPersist s"
  "persisted (reportAttributes as s) = persisted s"
  "weakDelegate (reportAttributes as s) = weakDelegate s"
  "receivingReport (reportAttributes as s) = receivingReport s"
  "receivingPrimingReport (reportAttributes as s) = receivingPrimingReport s"
  "asyncWorkQueue (reportAttributes as s) = asyncWorkQueue s"
  "clusterView (reportAttributes as s) = clusterView s"
  by (simp_all add: reportAttributes_def)

lemma clusterView_setExpectedValue [simp]:
  "clusterView (snd (setExpectedValue v p t g s)) = clusterView s"
  by (simp add: setExpectedValue_def Let_def split_beta split: option.splits prod.splits)

lemma clusterView_newExpectedValueStep [simp]:
  "clusterView (fst (newExpectedValueStep t g r acc)) = clusterView (fst acc)"
  by (simp add: newExpectedValueStep_def Let_def split_beta)

lemma clusterView_fold_newExpectedValueStep [simp]:
  "clusterView (fst (fold (newExpectedValueStep t g) rs acc)) = clusterView (fst acc)"
  by (induction rs arbitrary: acc) simp_all

lemma clusterView_expirationRemoveStep [simp]:
  "clusterView (fst (expirationRemoveStep i acc)) = clusterView (fst acc)"
  by (simp add: expirationRemoveStep_def Let_def split_beta)

lemma clusterView_fold_expirationRemoveStep [simp]:
  "clusterView (fst (fold expirationRemoveStep is acc)) = clusterView (fst acc)"
  by (induction "is" arbitrary: acc) simp_all

lemma clusterView_checkExpiredExpectedValues [simp]:
  "clusterView (checkExpiredExpectedValues now s) = clusterView s"
  by (simp add: checkExpiredExpectedValues_def Let_def split_beta split: option.splits)

lemma clusterView_setExpectedValues [simp]:
  "clusterView (snd (setExpectedValues vs i now checkTime s)) = clusterView s"
  by (simp add: setExpectedValues_def getAttributesToReportWithNewExpectedValues_def
      Let_def split_beta)

lemma clusterView_removeExpectedValueForAttributePath [simp]:
  "clusterView (removeExpectedValueForAttributePath p g s) = clusterView s"
  by (simp add: removeExpectedValueForAttributePath_def Let_def split_beta)

lemma clusterView_removeExpectedValuesForAttributePaths [simp]:
  "clusterView (removeExpectedValuesForAttributePaths ps g s) = clusterView s"
  unfolding removeExpectedValuesForAttributePaths_def
  by (induction ps arbitrary: s) simp_all

lemma clusterView_applyOp [simp]: "clusterView (applyOp op s) = clusterView s"
  by (cases op) (simp_all add: performScheduledExpirationCheck_def)

lemma clusterView_applyOps [simp]: "clusterView (applyOps ops s) = clusterView s"
  unfolding applyOps_def by (induction ops arbitrary: s) simp_all

subsection \<open>Reading an attribute\<close>

lemma cachedValue_expectedValueCache_update [simp]:
  "cachedValue (s\<lparr>expectedValueCache := x\<rparr>) = cachedValue s"
  by (rule cachedValue_cong) simp

lemma cachedValue_applyOps [simp]: "cachedValue (applyOps ops s) = cachedValue s"
  by (rule cachedValue_cong) simp

lemma fst_attributeValueDictionaryForAttributePath:
  "fst (attributeValueDictionaryForAttributePath p now s) =
     (case map_of (expectedValueCache s) p of
        Some (expiration, v, g) \<Rightarrow> if now > expiration then cachedValue s p else Some v
      | None \<Rightarrow> cachedValue s p)"
  by (simp add: attributeValueDictionaryForAttributePath_def split: option.splits)

lemma fst_readAttributeWithEndpointID:
  "fst (readAttributeWithEndpointID c e cl a params now skipTime s) =
     fst (attributeValueDictionaryForAttributePath (AttributePath e cl a) now s)"
  by (simp add: readAttributeWithEndpointID_def Let_def split_beta)

text \<open>
  Claim C1. After any sequence of insertions of expected values, removals by ID and expiry
  checks, a read of a path returns the expected value stored for the path when there is one
  and the instant of the read is not past its expiration time; otherwise it returns the
  value of the read cache for the path, which the sequence has not changed; otherwise
  nothing.
\<close>

theorem read_returns_unexpired_expected_value_else_cached:
  "fst (readAttributeWithEndpointID c e cl a params now skipTime (applyOps ops s)) =
     (case map_of (expectedValueCache (applyOps ops s)) (AttributePath e cl a) of
        Some (expiration, v, g) \<Rightarrow>
          if now > expiration then cachedValue s (AttributePath e cl a) else Some v
      | None \<Rightarrow> cachedValue s (AttributePath e cl a))"
  by (simp add: fst_readAttributeWithEndpointID fst_attributeValueDictionaryForAttributePath
      split: option.splits)

text \<open>
  The optimistic write of the scenarios: the cache says off, on is expected for 5000
  milliseconds from instant 0. A read at 5 seconds still answers on, a read at 6 seconds
  answers off.
\<close>

lemma onOffDevice_expects_on:
  "map_of (expectedValueCache
       (applyOps [SetExpectedValues [(onOffPath, booleanValue True)] 5000 0 0] onOffDevice))
     onOffPath = Some (5, booleanValue True, 0)"
  by code_simp

lemma onOffDevice_cached_off: "cachedValue onOffDevice onOffPath = Some (booleanValue False)"
  by code_simp

theorem read_returns_unexpired_expected_value_else_cached_witness:
  "fst (readAttributeWithEndpointID exampleConstants 1 6 0 None 5 5
          (applyOps [SetExpectedValues [(onOffPath, booleanValue True)] 5000 0 0] onOffDevice)) =
     Some (booleanValue True)
   \<and> fst (readAttributeWithEndpointID exampleConstants 1 6 0 None 6 6
          (applyOps [SetExpectedValues [(onOffPath, booleanValue True)] 5000 0 0] onOffDevice)) =
     Some (booleanValue False)"
  using read_returns_unexpired_expected_value_else_cached
    [of exampleConstants 1 6 0 None 5 5
        "[SetExpectedValues [(onOffPath, booleanValue True)] 5000 0 0]" onOffDevice]
    read_returns_unexpired_expected_value_else_cached
    [of exampleConstants 1 6 0 None 6 6
        "[SetExpectedValues [(onOffPath, booleanValue True)] 5000 0 0]" onOffDevice]
    onOffDevice_expects_on onOffDevice_cached_off
  by (simp add: onOffPath_def)

subsection \<open>Removing an expected value\<close>

lemma expectedValueCache_setExpectedValue_None:
  "expectedValueCache (snd (setExpectedValue None p t g s)) =
     (case map_of (expectedValueCache s) p of
        Some (expiration, v, g') \<Rightarrow>
          if g' = g \<and> \<not> attributeDataValueIsEqualToDataValue (Some v) (cachedValue s p)
          then AList.delete p (expectedValueCache s) else expectedValueCache s
      | None \<Rightarrow> expectedValueCache s)"
  by (simp add: setExpectedValue_def Let_def split_beta split: option.splits)

lemma expectedValueCache_removeExpectedValueForAttributePath:
  "expectedValueCache (removeExpectedValueForAttributePath p g s) =
     (case map_of (expectedValueCache s) p of
        Some (expiration, v, g') \<Rightarrow>
          if g' = g \<and> \<not> attributeDataValueIsEqualToDataValue (Some v) (cachedValue s p)
          then AList.delete p (expectedValueCache s) else expectedValueCache s
      | None \<Rightarrow> expectedValueCache s)"
  by (simp add: removeExpectedValueForAttributePath_def Let_def split_beta
      expectedValueCache_setExpectedValue_None split: option.splits)

text \<open>
  Claim C3, as the code has it. Removing an expected value by path and ID deletes the
  entry stored at the path if and only if the entry's ID is the one given and, in
  addition, the entry's value differs from the value of the read cache: the assignment
  that deletes the entry stands inside the test that decides whether to report. The
  expiry check and the error branch of the report intake delete without that test.
\<close>

theorem removal_needs_matching_id_and_value_unlike_cache:
  assumes "map_of (expectedValueCache s) p = Some (expiration, v, g')"
  shows "map_of (expectedValueCache (removeExpectedValueForAttributePath p g s)) p = None
           \<longleftrightarrow> g' = g \<and> \<not> attributeDataValueIsEqualToDataValue (Some v) (cachedValue s p)"
  using assms
  by (simp add: expectedValueCache_removeExpectedValueForAttributePath delete_conv')

text \<open>
  A write of the value the cache already holds, which then fails: the removal with the ID
  of the write leaves the expected value in the cache.
\<close>

lemma onOffDevice_expects_off:
  "map_of (expectedValueCache
       (snd (setExpectedValues [(onOffPath, booleanValue False)] 5000 0 0 onOffDevice)))
     onOffPath = Some (5, booleanValue False, 0)"
  by code_simp

lemma onOffDevice_expected_is_cached:
  "attributeDataValueIsEqualToDataValue (Some (booleanValue False))
     (cachedValue (snd (setExpectedValues [(onOffPath, booleanValue False)] 5000 0 0 onOffDevice))
        onOffPath)"
  by code_simp

theorem removal_needs_matching_id_and_value_unlike_cache_witness:
  "map_of (expectedValueCache
       (removeExpectedValueForAttributePath onOffPath 0
          (snd (setExpectedValues [(onOffPath, booleanValue False)] 5000 0 0 onOffDevice))))
     onOffPath \<noteq> None"
  using removal_needs_matching_id_and_value_unlike_cache
    [OF onOffDevice_expects_off, of 0] onOffDevice_expected_is_cached
  by simp

subsection \<open>Installing expected values\<close>

lemma expectedValueCache_setExpectedValue_Some:
  "expectedValueCache (snd (setExpectedValue (Some v) p (Some t) g s)) =
     AList.update p (t, v, g) (expectedValueCache s)"
  by (simp add: setExpectedValue_def Let_def split_beta split: option.splits)

lemma setExpectedValue_frame [simp]:
  "expectedValueNextID (snd (setExpectedValue v p t g s)) = expectedValueNextID s"
  "expirationCheckScheduled (snd (setExpectedValue v p t g s)) = expirationCheckScheduled s"
  "asyncWorkQueue (snd (setExpectedValue v p t g s)) = asyncWorkQueue s"
  "weakDelegate (snd (setExpectedValue v p t g s)) = weakDelegate s"
  "effects (snd (setExpectedValue v p t g s)) = effects s"
  by (simp_all add: setExpectedValue_def Let_def split_beta split: option.splits prod.splits)

lemma newExpectedValueStep_frame [simp]:
  "expectedValueNextID (fst (newExpectedValueStep t g r acc)) = expectedValueNextID (fst acc)"
  "expirationCheckScheduled (fst (newExpectedValueStep t g r acc)) = expirationCheckScheduled (fst acc)"
  "asyncWorkQueue (fst (newExpectedValueStep t g r acc)) = asyncWorkQueue (fst acc)"
  "weakDelegate (fst (newExpectedValueStep t g r acc)) = weakDelegate (fst acc)"
  "effects (fst (newExpectedValueStep t g r acc)) = effects (fst acc)"
  by (simp_all add: newExpectedValueStep_def Let_def split_beta)

lemma fold_newExpectedValueStep_frame [simp]:
  "expectedValueNextID (fst (fold (newExpectedValueStep t g) rs acc)) = expectedValueNextID (fst acc)"
  "expirationCheckScheduled (fst (fold (newExpectedValueStep t g) rs acc)) = expirationCheckScheduled (fst acc)"
  "asyncWorkQueue (fst (fold (newExpectedValueStep t g) rs acc)) = asyncWorkQueue (fst acc)"
  "weakDelegate (fst (fold (newExpectedValueStep t g) rs acc)) = weakDelegate (fst acc)"
  "effects (fst (fold (newExpectedValueStep t g) rs acc)) = effects (fst acc)"
  by (induction rs arbitrary: acc) simp_all

lemma expectedValueCache_newExpectedValueStep:
  "expectedValueCache (fst (newExpectedValueStep t g (p, v) acc)) =
     AList.update p (t, v, g) (expectedValueCache (fst acc))"
  by (simp add: newExpectedValueStep_def Let_def split_beta expectedValueCache_setExpectedValue_Some)

lemma map_of_fold_newExpectedValueStep:
  "map_of (expectedValueCache (fst (fold (newExpectedValueStep t g) vs acc))) p =
     (case map_of (rev vs) p of
        Some v \<Rightarrow> Some (t, v, g)
      | None \<Rightarrow> map_of (expectedValueCache (fst acc)) p)"
proof (induction vs arbitrary: acc)
  case Nil
  then show ?case by simp
next
  case (Cons r vs)
  obtain q v where r: "r = (q, v)" by (cases r)
  show ?case
    by (simp add: Cons.IH r expectedValueCache_newExpectedValueStep update_conv' map_add_def
        split: option.splits)
qed

lemma fst_expirationScanStep:
  "fst (expirationScanStep now cache p acc) =
     fst acc @ (case map_of cache p of
                  Some (expiration, v, g) \<Rightarrow> if now > expiration then [(p, v)] else []
                | None \<Rightarrow> [])"
  by (simp add: expirationScanStep_def split_beta split: option.splits)

lemma fst_set_expirationScanStep:
  "fst ` set (fst (expirationScanStep now cache p acc)) =
     fst ` set (fst acc) \<union> (if expiredAt now cache p then {p} else {})"
proof (cases "map_of cache p")
  case None
  then show ?thesis by (simp add: fst_expirationScanStep expiredAt_def)
next
  case (Some e)
  obtain t v g where "e = (t, v, g)" by (cases e)
  with Some show ?thesis by (simp add: fst_expirationScanStep expiredAt_def)
qed

lemma fst_set_fold_expirationScanStep:
  "fst ` set (fst (fold (expirationScanStep now cache) ps acc)) =
     fst ` set (fst acc) \<union> {p \<in> set ps. expiredAt now cache p}"
proof (induction ps arbitrary: acc)
  case Nil
  then show ?case by simp
next
  case (Cons p ps)
  show ?case
    by (auto simp add: Cons.IH fst_set_expirationScanStep)
qed

lemma expectedValueCache_expirationRemoveStep:
  "expectedValueCache (fst (expirationRemoveStep i acc)) =
     AList.delete (fst i) (expectedValueCache (fst acc))"
  by (simp add: expirationRemoveStep_def Let_def split_beta)

lemma map_of_fold_expirationRemoveStep:
  "map_of (expectedValueCache (fst (fold expirationRemoveStep is acc))) p =
     (if p \<in> fst ` set is then None else map_of (expectedValueCache (fst acc)) p)"
proof (induction "is" arbitrary: acc)
  case Nil
  then show ?case by simp
next
  case (Cons i "is")
  show ?case
    by (simp add: Cons.IH expectedValueCache_expirationRemoveStep delete_conv')
qed

lemma map_of_checkExpiredExpectedValues:
  "map_of (expectedValueCache (checkExpiredExpectedValues now s)) p =
     (if expiredAt now (expectedValueCache s) p then None
      else map_of (expectedValueCache s) p)"
proof -
  have keys: "expiredAt now (expectedValueCache s) p \<Longrightarrow> p \<in> fst ` set (expectedValueCache s)"
    by (auto simp add: expiredAt_def split: option.splits dest: map_of_SomeD intro: rev_image_eqI)
  show ?thesis
    using keys
    by (auto simp add: checkExpiredExpectedValues_def Let_def split_beta
        map_of_fold_expirationRemoveStep fst_set_fold_expirationScanStep
        split: option.splits)
qed


lemma expirationRemoveStep_frame [simp]:
  "expectedValueNextID (fst (expirationRemoveStep i acc)) = expectedValueNextID (fst acc)"
  "asyncWorkQueue (fst (expirationRemoveStep i acc)) = asyncWorkQueue (fst acc)"
  "weakDelegate (fst (expirationRemoveStep i acc)) = weakDelegate (fst acc)"
  "effects (fst (expirationRemoveStep i acc)) = effects (fst acc)"
  by (simp_all add: expirationRemoveStep_def Let_def split_beta)

lemma fold_expirationRemoveStep_frame [simp]:
  "expectedValueNextID (fst (fold expirationRemoveStep is acc)) = expectedValueNextID (fst acc)"
  "asyncWorkQueue (fst (fold expirationRemoveStep is acc)) = asyncWorkQueue (fst acc)"
  "weakDelegate (fst (fold expirationRemoveStep is acc)) = weakDelegate (fst acc)"
  "effects (fst (fold expirationRemoveStep is acc)) = effects (fst acc)"
  by (induction "is" arbitrary: acc) simp_all

lemma checkExpiredExpectedValues_frame [simp]:
  "expectedValueNextID (checkExpiredExpectedValues now s) = expectedValueNextID s"
  "asyncWorkQueue (checkExpiredExpectedValues now s) = asyncWorkQueue s"
  "weakDelegate (checkExpiredExpectedValues now s) = weakDelegate s"
  by (simp_all add: checkExpiredExpectedValues_def Let_def split_beta split: option.splits)

lemma setExpectedValues_frame [simp]:
  "fst (setExpectedValues vs i now checkTime s) = expectedValueNextID s"
  "expectedValueNextID (snd (setExpectedValues vs i now checkTime s)) = expectedValueNextID s + 1"
  "asyncWorkQueue (snd (setExpectedValues vs i now checkTime s)) = asyncWorkQueue s"
  "weakDelegate (snd (setExpectedValues vs i now checkTime s)) = weakDelegate s"
  by (simp_all add: setExpectedValues_def getAttributesToReportWithNewExpectedValues_def
      Let_def split_beta)

lemma map_of_setExpectedValues:
  "map_of (expectedValueCache (snd (setExpectedValues vs i now checkTime s))) p =
     (case map_of (rev vs) p of
        Some v \<Rightarrow>
          if checkTime > now + i / 1000 then None
          else Some (now + i / 1000, v, expectedValueNextID s)
      | None \<Rightarrow>
          if expiredAt checkTime (expectedValueCache s) p then None
          else map_of (expectedValueCache s) p)"
  by (simp add: setExpectedValues_def getAttributesToReportWithNewExpectedValues_def
      Let_def split_beta map_of_checkExpiredExpectedValues map_of_fold_newExpectedValueStep
      expiredAt_def split: option.splits)

lemma enqueueWorkItem_simps [simp]:
  "expectedValueCache (enqueueWorkItem w s) = expectedValueCache s"
  "expectedValueNextID (enqueueWorkItem w s) = expectedValueNextID s"
  "asyncWorkQueue (enqueueWorkItem w s) = asyncWorkQueue s @ [w]"
  "effects (enqueueWorkItem w s) = effects s"
  by (simp_all add: enqueueWorkItem_def)

lemma MTRClampedNumber_interval: "1 \<le> MTRClampedNumber i 1 UINT32_MAX"
  by (simp add: MTRClampedNumber_def UINT32_MAX_def)

lemma invoke_without_interval:
  assumes "expectedValueInterval = None \<or> (\<exists>i. expectedValueInterval = Some i \<and> i < 0)"
  shows "expectedValueCache
           (invokeCommandWithEndpointID c e cl cmd commandFields expectedValues expectedValueInterval
              timeout sspt now expectedNow checkTime s) = expectedValueCache s"
    and "expectedValueNextID
           (invokeCommandWithEndpointID c e cl cmd commandFields expectedValues expectedValueInterval
              timeout sspt now expectedNow checkTime s) = expectedValueNextID s"
  using assms by (auto simp add: invokeCommandWithEndpointID_def Let_def)

lemma invoke_with_interval:
  assumes "expectedValueInterval = Some i" "0 \<le> i" "expectedValues = Some vs"
  shows "expectedValueCache
           (invokeCommandWithEndpointID c e cl cmd commandFields expectedValues expectedValueInterval
              timeout sspt now expectedNow checkTime s) =
         expectedValueCache
           (snd (setExpectedValues vs (MTRClampedNumber i 1 UINT32_MAX) expectedNow checkTime s))"
    and "expectedValueNextID
           (invokeCommandWithEndpointID c e cl cmd commandFields expectedValues expectedValueInterval
              timeout sspt now expectedNow checkTime s) = expectedValueNextID s + 1"
  using assms by (simp_all add: invokeCommandWithEndpointID_def Let_def split_beta)

lemma map_of_rev_SomeD: "map_of (rev vs) p = Some v \<Longrightarrow> (p, v) \<in> set vs"
  by (drule map_of_SomeD) simp

lemma map_of_rev_Some: "p \<in> fst ` set vs \<Longrightarrow> \<exists>v. map_of (rev vs) p = Some v"
  by (cases "map_of (rev vs) p") (auto simp add: map_of_eq_None_iff)

text \<open>
  Claim C5, as the code has it. An invoke whose expected-value interval is nil or negative
  installs no expected value: the cache and the ID counter stay as they are. With any
  other interval, zero included, the interval is clamped to 1 .. \<open>UINT32_MAX\<close>
  milliseconds and, when expected values were given, the call draws one ID from the
  counter and stores under it, for each path, one of the values given for the path, to
  expire the clamped interval after the instant \<open>expectedNow\<close> that the installation
  reads first. The expiry check that ends the installation reads the clock again, at
  \<open>checkTime\<close>, and drops the entries whose expiration that instant has passed: after the
  call each of the paths holds its entry unless \<open>checkTime\<close> is past the expiration, and
  holds nothing then.
\<close>

theorem invoke_installs_expected_values_unless_interval_nil_or_negative:
  assumes "s' = invokeCommandWithEndpointID c endpointID clusterID commandID commandFields
                  expectedValues expectedValueInterval timeout sspt now expectedNow checkTime s"
  shows "((expectedValueInterval = None \<or> (\<exists>i. expectedValueInterval = Some i \<and> i < 0)) \<longrightarrow>
            expectedValueCache s' = expectedValueCache s \<and>
            expectedValueNextID s' = expectedValueNextID s)
       \<and> (\<forall>i vs. expectedValueInterval = Some i \<and> 0 \<le> i \<and> expectedValues = Some vs \<longrightarrow>
            expectedValueNextID s' = expectedValueNextID s + 1 \<and>
            (\<forall>p \<in> fst ` set vs. \<exists>v. (p, v) \<in> set vs \<and>
               map_of (expectedValueCache s') p =
               (if checkTime > expectedNow + MTRClampedNumber i 1 UINT32_MAX / 1000 then None
                else Some (expectedNow + MTRClampedNumber i 1 UINT32_MAX / 1000, v,
                           expectedValueNextID s))))"
proof (intro conjI impI allI ballI)
  assume "expectedValueInterval = None \<or> (\<exists>i. expectedValueInterval = Some i \<and> i < 0)"
  then show "expectedValueCache s' = expectedValueCache s"
    unfolding assms by (rule invoke_without_interval)
next
  assume "expectedValueInterval = None \<or> (\<exists>i. expectedValueInterval = Some i \<and> i < 0)"
  then show "expectedValueNextID s' = expectedValueNextID s"
    unfolding assms by (rule invoke_without_interval)
next
  fix i vs
  assume a: "expectedValueInterval = Some i \<and> 0 \<le> i \<and> expectedValues = Some vs"
  then show "expectedValueNextID s' = expectedValueNextID s + 1"
    unfolding assms by (simp add: invoke_with_interval)
next
  fix i vs p
  assume a: "expectedValueInterval = Some i \<and> 0 \<le> i \<and> expectedValues = Some vs"
    and p: "p \<in> fst ` set vs"
  from map_of_rev_Some [OF p] obtain v where v: "map_of (rev vs) p = Some v" ..
  from a v have "map_of (expectedValueCache s') p =
      (if checkTime > expectedNow + MTRClampedNumber i 1 UINT32_MAX / 1000 then None
       else Some (expectedNow + MTRClampedNumber i 1 UINT32_MAX / 1000, v,
                  expectedValueNextID s))"
    unfolding assms by (simp add: invoke_with_interval map_of_setExpectedValues)
  with map_of_rev_SomeD [OF v]
  show "\<exists>v. (p, v) \<in> set vs \<and> map_of (expectedValueCache s') p =
      (if checkTime > expectedNow + MTRClampedNumber i 1 UINT32_MAX / 1000 then None
       else Some (expectedNow + MTRClampedNumber i 1 UINT32_MAX / 1000, v,
                  expectedValueNextID s))"
    by blast
qed

text \<open>
  Claim C5 as stated fails for the interval 0: the On command of endpoint 1 with the
  expected value on and the interval 0 stores the expected value, to expire a millisecond
  after instant 0; the expiry check that ends the installation, half a millisecond after
  instant 0, leaves it in the cache.
\<close>

lemma clamped_zero_interval: "MTRClampedNumber 0 1 UINT32_MAX = 1"
  by code_simp

lemma onOffDevice_expects_on_for_1ms:
  "map_of (expectedValueCache
     (snd (setExpectedValues [(onOffPath, booleanValue True)] 1 0 (1 / 2000) onOffDevice)))
     onOffPath = Some (1 / 1000, booleanValue True, 0)"
  by code_simp

lemma onOffDevice_expects_nothing: "expectedValueCache onOffDevice = []"
  by (simp add: onOffDevice_def initWithNodeID_def)

theorem invoke_with_interval_zero_installs:
  "map_of (expectedValueCache
     (invokeCommandWithEndpointID exampleConstants 1 6 1 (NSArray [])
        (Some [(onOffPath, booleanValue True)]) (Some 0) None None 0 0 (1 / 2000) onOffDevice))
     onOffPath = Some (1 / 1000, booleanValue True, 0)
   \<and> expectedValueCache
     (invokeCommandWithEndpointID exampleConstants 1 6 1 (NSArray [])
        (Some [(onOffPath, booleanValue True)]) (Some 0) None None 0 0 (1 / 2000) onOffDevice) \<noteq>
     expectedValueCache onOffDevice"
proof -
  have "expectedValueCache
     (invokeCommandWithEndpointID exampleConstants 1 6 1 (NSArray [])
        (Some [(onOffPath, booleanValue True)]) (Some 0) None None 0 0 (1 / 2000) onOffDevice) =
     expectedValueCache
       (snd (setExpectedValues [(onOffPath, booleanValue True)] 1 0 (1 / 2000) onOffDevice))"
    using invoke_with_interval(1) [of "Some 0" 0 "Some [(onOffPath, booleanValue True)]"
        "[(onOffPath, booleanValue True)]" exampleConstants 1 6 1 "NSArray []" None None 0 0
        "1 / 2000" onOffDevice]
    by (simp add: clamped_zero_interval)
  then show ?thesis
    using onOffDevice_expects_on_for_1ms by (auto simp add: onOffDevice_expects_nothing)
qed

text \<open>
  A negative interval installs nothing; an interval of 5000 milliseconds installs the
  value for 5 seconds; and an entry installed for the interval 0 is gone after the call
  when the expiry check reads the clock 2 milliseconds after the installation.
\<close>

theorem invoke_installs_expected_values_unless_interval_nil_or_negative_witness:
  "expectedValueCache
     (invokeCommandWithEndpointID exampleConstants 1 6 1 (NSArray [])
        (Some [(onOffPath, booleanValue True)]) (Some (- 1)) None None 0 0 (1 / 2000)
        onOffDevice) =
     expectedValueCache onOffDevice
   \<and> map_of (expectedValueCache
     (invokeCommandWithEndpointID exampleConstants 1 6 1 (NSArray [])
        (Some [(onOffPath, booleanValue True)]) (Some 5000) None None 0 0 (1 / 2000)
        onOffDevice)) onOffPath =
     Some (5, booleanValue True, 0)
   \<and> map_of (expectedValueCache
     (invokeCommandWithEndpointID exampleConstants 1 6 1 (NSArray [])
        (Some [(onOffPath, booleanValue True)]) (Some 0) None None 0 0 (2 / 1000)
        onOffDevice)) onOffPath = None"
proof -
  have clamp: "MTRClampedNumber 5000 1 UINT32_MAX = 5000" by code_simp
  have next_id: "expectedValueNextID onOffDevice = 0"
    by (simp add: onOffDevice_def initWithNodeID_def)
  show ?thesis
    using invoke_installs_expected_values_unless_interval_nil_or_negative
      [OF refl, of "Some (- 1)" exampleConstants 1 6 1 "NSArray []"
         "Some [(onOffPath, booleanValue True)]" None None 0 0 "1 / 2000" onOffDevice]
      invoke_installs_expected_values_unless_interval_nil_or_negative
      [OF refl, of "Some 5000" exampleConstants 1 6 1 "NSArray []"
         "Some [(onOffPath, booleanValue True)]" None None 0 0 "1 / 2000" onOffDevice]
      invoke_installs_expected_values_unless_interval_nil_or_negative
      [OF refl, of "Some 0" exampleConstants 1 6 1 "NSArray []"
         "Some [(onOffPath, booleanValue True)]" None None 0 0 "2 / 1000" onOffDevice]
    by (simp add: clamp clamped_zero_interval next_id)
qed

subsection \<open>Timed invokes\<close>

lemma reportAttributes_effects:
  "effects (reportAttributes as s) =
     effects s @ (if as \<noteq> [] \<and> weakDelegate s then [DelegateReceivedAttributeReport as] else [])"
  by (simp add: reportAttributes_def)

lemma removeExpectedValueForAttributePath_effects:
  "\<exists>es. effects (removeExpectedValueForAttributePath p g s) = effects s @ es \<and>
        \<not> list_ex isBaseDeviceInvokeCommand es"
  by (simp add: removeExpectedValueForAttributePath_def Let_def split_beta
      reportAttributes_effects isBaseDeviceInvokeCommand_def)

lemma removeExpectedValuesForAttributePaths_effects:
  "\<exists>es. effects (removeExpectedValuesForAttributePaths ps g s) = effects s @ es \<and>
        \<not> list_ex isBaseDeviceInvokeCommand es"
  unfolding removeExpectedValuesForAttributePaths_def
proof (induction ps arbitrary: s)
  case Nil
  then show ?case by simp
next
  case (Cons p ps)
  from removeExpectedValueForAttributePath_effects [of p g s]
  obtain es where es: "effects (removeExpectedValueForAttributePath p g s) = effects s @ es"
    "\<not> list_ex isBaseDeviceInvokeCommand es" by blast
  from Cons.IH [of "removeExpectedValueForAttributePath p g s"]
  obtain es' where es': "effects (fold (\<lambda>attributePath.
        removeExpectedValueForAttributePath attributePath g) ps
        (removeExpectedValueForAttributePath p g s)) =
      effects (removeExpectedValueForAttributePath p g s) @ es'"
    "\<not> list_ex isBaseDeviceInvokeCommand es'" by blast
  show ?case
    using es es' by (intro exI [of _ "es @ es'"]) simp
qed

lemma workDone_effects:
  "\<exists>es. effects (workDone r values error s) =
          effects s @ InvokeCompletion values error # es \<and>
        \<not> list_ex isBaseDeviceInvokeCommand es"
proof -
  let ?s1 = "dispatch (InvokeCompletion values error) s"
  consider (remove) ps where
      "workDone r values error s =
         dispatch (WorkCompletion MTRAsyncWorkComplete)
           (removeExpectedValuesForAttributePaths ps (invokeExpectedValueID r) ?s1)"
    | (keep) "workDone r values error s = dispatch (WorkCompletion MTRAsyncWorkComplete) ?s1"
    by (cases error; cases "invokeExpectedValues r"; cases "invokeAttributePaths r")
       (simp_all add: workDone_def Let_def)
  then show ?thesis
  proof cases
    case (remove ps)
    from removeExpectedValuesForAttributePaths_effects [of ps "invokeExpectedValueID r" ?s1]
    obtain es where "effects (removeExpectedValuesForAttributePaths ps (invokeExpectedValueID r) ?s1)
        = effects ?s1 @ es" "\<not> list_ex isBaseDeviceInvokeCommand es" by blast
    with remove show ?thesis
      by (intro exI [of _ "es @ [WorkCompletion MTRAsyncWorkComplete]"])
         (simp add: isBaseDeviceInvokeCommand_def)
  next
    case keep
    then show ?thesis
      by (intro exI [of _ "[WorkCompletion MTRAsyncWorkComplete]"])
         (simp add: isBaseDeviceInvokeCommand_def)
  qed
qed

lemma invokeReadyHandler_past_cutoff:
  assumes "invokeTimed r = Some (t, cutoffTime)" "now > cutoffTime"
  shows "\<exists>es. issued s (invokeReadyHandler r now s) =
            InvokeCompletion None (Some MTRInteractionErrorCodeTimeout) # es \<and>
          \<not> list_ex isBaseDeviceInvokeCommand es"
  using assms workDone_effects [of r None "Some MTRInteractionErrorCodeTimeout" s]
  by (auto simp add: invokeReadyHandler_def issued_def)

lemma invokeReadyHandler_before_cutoff:
  assumes "invokeTimed r = Some (t, cutoffTime)" "\<not> now > cutoffTime"
  shows "issued s (invokeReadyHandler r now s) =
           [BaseDeviceInvokeCommand (Some ((cutoffTime - now) * 1000))]"
  using assms by (simp add: invokeReadyHandler_def issued_def)

lemma invokeCommand_enqueues:
  "\<exists>r. asyncWorkQueue (invokeCommandWithEndpointID c endpointID clusterID commandID commandFields
            expectedValues expectedValueInterval timeout sspt now expectedNow checkTime s) =
          asyncWorkQueue s @ [InvokeWorkItem r] \<and>
        invokeTimed r =
          (case (if timeout = None \<and> MTRCommandNeedsTimedInvoke c clusterID commandID
                 then Some (MTR_DEFAULT_TIMED_INTERACTION_TIMEOUT_MS c) else timeout) of
             Some t \<Rightarrow> Some (t, now + t / 1000)
           | None \<Rightarrow> None)"
  by (simp add: invokeCommandWithEndpointID_def Let_def split_beta split: option.splits)


text \<open>
  Claim C7. An invoke with a timed invoke timeout of \<open>t\<close> milliseconds (given, or the
  default that a command needing a timed invoke gets) enqueues a work item that has
  recorded the cut-off: the instant of the call plus \<open>t\<close> milliseconds. When the item
  becomes ready past the cut-off, the completion is called with the Timeout status and no
  command goes to the base device; otherwise the command goes out with the time left
  until the cut-off as its timed invoke timeout.
\<close>

theorem timed_invoke_deadline:
  assumes "(if timeout = None \<and> MTRCommandNeedsTimedInvoke c clusterID commandID
            then Some (MTR_DEFAULT_TIMED_INTERACTION_TIMEOUT_MS c) else timeout) = Some t"
  shows "\<exists>r. asyncWorkQueue (invokeCommandWithEndpointID c endpointID clusterID commandID
                  commandFields expectedValues expectedValueInterval timeout sspt now expectedNow checkTime s) =
               asyncWorkQueue s @ [InvokeWorkItem r]
           \<and> invokeTimed r = Some (t, now + t / 1000)
           \<and> (\<forall>ready s'. ready > now + t / 1000 \<longrightarrow>
                 (\<exists>es. issued s' (invokeReadyHandler r ready s') =
                         InvokeCompletion None (Some MTRInteractionErrorCodeTimeout) # es \<and>
                       \<not> list_ex isBaseDeviceInvokeCommand es))
           \<and> (\<forall>ready s'. \<not> ready > now + t / 1000 \<longrightarrow>
                 issued s' (invokeReadyHandler r ready s') =
                   [BaseDeviceInvokeCommand (Some ((now + t / 1000 - ready) * 1000))])"
proof -
  from invokeCommand_enqueues [of c endpointID clusterID commandID commandFields
      expectedValues expectedValueInterval timeout sspt now expectedNow checkTime s] assms
  obtain r where r: "asyncWorkQueue (invokeCommandWithEndpointID c endpointID clusterID commandID
        commandFields expectedValues expectedValueInterval timeout sspt now expectedNow checkTime s) =
      asyncWorkQueue s @ [InvokeWorkItem r]" "invokeTimed r = Some (t, now + t / 1000)"
    by auto
  show ?thesis
    using r invokeReadyHandler_past_cutoff [OF r(2)] invokeReadyHandler_before_cutoff [OF r(2)]
    by (intro exI [of _ r]) simp
qed

theorem timed_invoke_deadline_witness:
  "\<exists>r. asyncWorkQueue (invokeCommandWithEndpointID exampleConstants 1 6 1 (NSArray [])
             None None (Some 2000) None 10 10 10 onOffDevice) = [InvokeWorkItem r]
      \<and> invokeTimed r = Some (2000, 12)
      \<and> hd (issued onOffDevice (invokeReadyHandler r 13 onOffDevice)) =
           InvokeCompletion None (Some MTRInteractionErrorCodeTimeout)
      \<and> \<not> list_ex isBaseDeviceInvokeCommand
             (issued onOffDevice (invokeReadyHandler r 13 onOffDevice))
      \<and> issued onOffDevice (invokeReadyHandler r (23 / 2) onOffDevice) =
           [BaseDeviceInvokeCommand (Some 500)]"
proof -
  have queue: "asyncWorkQueue onOffDevice = []"
    by (simp add: onOffDevice_def initWithNodeID_def)
  from timed_invoke_deadline [of "Some 2000" exampleConstants 6 1 2000 1 "NSArray []"
      None None None 10 10 10 onOffDevice]
  obtain r where r: "asyncWorkQueue (invokeCommandWithEndpointID exampleConstants 1 6 1
        (NSArray []) None None (Some 2000) None 10 10 10 onOffDevice) = [InvokeWorkItem r]"
      "invokeTimed r = Some (2000, 12)"
      "\<And>ready s'. ready > 12 \<Longrightarrow>
         \<exists>es. issued s' (invokeReadyHandler r ready s') =
                 InvokeCompletion None (Some MTRInteractionErrorCodeTimeout) # es \<and>
               \<not> list_ex isBaseDeviceInvokeCommand es"
      "\<And>ready s'. \<not> ready > 12 \<Longrightarrow>
         issued s' (invokeReadyHandler r ready s') =
           [BaseDeviceInvokeCommand (Some ((12 - ready) * 1000))]"
    by (auto simp add: queue)
  from r(3) [of 13 onOffDevice] obtain es where
    "issued onOffDevice (invokeReadyHandler r 13 onOffDevice) =
       InvokeCompletion None (Some MTRInteractionErrorCodeTimeout) # es"
    "\<not> list_ex isBaseDeviceInvokeCommand es" by auto
  moreover from r(4) [of "23 / 2" onOffDevice]
  have "issued onOffDevice (invokeReadyHandler r (23 / 2) onOffDevice) =
      [BaseDeviceInvokeCommand (Some 500)]" by simp
  ultimately show ?thesis
    using r(1,2) by (intro exI [of _ r]) (simp add: isBaseDeviceInvokeCommand_def)
qed

subsection \<open>The cache-primed predicate\<close>

lemma partsListLoop_persisted:
  "\<exists>p. snd (partsListLoop c items s) = s\<lparr>persisted := p\<rparr>"
proof (induction items arbitrary: s)
  case Nil
  show ?case by (intro exI [of _ "persisted s"]) simp
next
  case (Cons item rest)
  have same: "\<exists>p. s = s\<lparr>persisted := p\<rparr>"
    by (intro exI [of _ "persisted s"]) simp
  have paged: "\<exists>p. snd (cachedAttributeValueForPath q s) = s\<lparr>persisted := p\<rparr>" for q
    unfolding snd_cachedAttributeValueForPath
    by (cases "clusterPathWithEndpointID (endpoint q) (cluster q)" s rule: clusterDataForPath_cases)
       (auto intro: same)
  have after: "\<exists>p. snd (partsListLoop c rest (snd (cachedAttributeValueForPath q s))) =
      s\<lparr>persisted := p\<rparr>" for q
  proof -
    from paged [of q] obtain p1 where p1: "snd (cachedAttributeValueForPath q s) = s\<lparr>persisted := p1\<rparr>" ..
    from Cons.IH [of "s\<lparr>persisted := p1\<rparr>"] obtain p2 where
      "snd (partsListLoop c rest (s\<lparr>persisted := p1\<rparr>)) = s\<lparr>persisted := p1, persisted := p2\<rparr>" ..
    then show ?thesis using p1 by (intro exI [of _ p2]) simp
  qed
  show ?case
  proof (cases item)
    case (NSDictionary d)
    show ?thesis
    proof (cases "dataKey d")
      case None
      then show ?thesis using NSDictionary Cons.IH by simp
    next
      case (Some dv)
      show ?thesis
      proof (cases dv)
        case (NSDictionary endpointDataValue)
        note dv = NSDictionary
        show ?thesis
        proof (cases "valueKey endpointDataValue")
          case None
          then show ?thesis using \<open>item = NSDictionary d\<close> Some dv Cons.IH by simp
        next
          case (Some n)
          then show ?thesis
            using \<open>item = NSDictionary d\<close> \<open>dataKey d = Some dv\<close> dv Cons.IH [of s]
              paged after same
            by (cases n) (simp_all add: split_beta Let_def split: option.splits)
        qed
      qed (use \<open>item = NSDictionary d\<close> Some Cons.IH in simp_all)
    qed
  qed (use same in simp_all)
qed

lemma effects_partsListLoop [simp]:
  "effects (snd (partsListLoop c items s)) = effects s"
  "weakDelegate (snd (partsListLoop c items s)) = weakDelegate s"
  "delegateDeviceCachePrimedCalled (snd (partsListLoop c items s)) = delegateDeviceCachePrimedCalled s"
proof -
  from partsListLoop_persisted [of c items s]
  obtain p where p: "snd (partsListLoop c items s) = s\<lparr>persisted := p\<rparr>" ..
  show "effects (snd (partsListLoop c items s)) = effects s"
    "weakDelegate (snd (partsListLoop c items s)) = weakDelegate s"
    "delegateDeviceCachePrimedCalled (snd (partsListLoop c items s)) = delegateDeviceCachePrimedCalled s"
    by (simp_all add: p)
qed

lemma isCachePrimed_frame [simp]:
  "effects (snd (isCachePrimedWithInitialConfigurationData c s)) = effects s"
  "weakDelegate (snd (isCachePrimedWithInitialConfigurationData c s)) = weakDelegate s"
  "delegateDeviceCachePrimedCalled (snd (isCachePrimedWithInitialConfigurationData c s)) =
     delegateDeviceCachePrimedCalled s"
  by (simp_all add: isCachePrimedWithInitialConfigurationData_def split_beta Let_def
      split: obj.splits option.splits)

lemma isCachePrimed_without_parts:
  assumes "cachedValue s (AttributePath (kRootEndpointId c) (MTRClusterIDTypeDescriptorID c)
              (MTRAttributeIDTypeClusterDescriptorAttributePartsListID c)) = Some d"
    and "typeKey d \<noteq> Some MTRArrayValueType \<or> valueKey d = Some (NSArray []) \<or>
         (\<forall>partsList. valueKey d \<noteq> Some (NSArray partsList))"
  shows "fst (isCachePrimedWithInitialConfigurationData c s) = Some False"
  using assms
  by (auto simp add: isCachePrimedWithInitialConfigurationData_def split_beta Let_def
      isEqual_def split: obj.splits option.splits)

lemma issued_setupSubscription:
  "DelegateDeviceCachePrimed \<notin> set (issued s (setupSubscription s))"
  by (simp add: setupSubscription_def issued_def dispatch_def)

lemma setupSubscription_delegate [simp]:
  "weakDelegate (setupSubscription s) = weakDelegate s"
  "delegateDeviceCachePrimedCalled (setupSubscription s) = delegateDeviceCachePrimedCalled s"
  by (simp_all add: setupSubscription_def dispatch_def)

lemma issued_handleSubscriptionEstablished:
  "DelegateDeviceCachePrimed \<in> set (issued s (handleSubscriptionEstablished s)) \<longleftrightarrow>
     weakDelegate s \<and> \<not> delegateDeviceCachePrimedCalled s"
  by (auto simp add: handleSubscriptionEstablished_def Let_def callDelegateDeviceCachePrimed_def
      callDelegateWithBlock_def changeState_def stopConnectivityMonitoring_def
      scheduleNextUpdate_def dispatch_def issued_def)

text \<open>
  Claim C10, as the code has it. The cache-primed predicate answers \<^verbatim>\<open>NO\<close> whenever the
  cached parts list of the root endpoint's Descriptor cluster is not of array type, is
  not an array, or is an empty array; installing a delegate on such a device does not
  dispatch \<^verbatim>\<open>deviceCachePrimed:\<close>. The establishment of a subscription does not ask the
  predicate: on any device it dispatches \<^verbatim>\<open>deviceCachePrimed:\<close> exactly when the device
  has a delegate and the call has not been made before. So on the device of the claim,
  once the delegate is installed, the establishment of the subscription dispatches
  \<^verbatim>\<open>deviceCachePrimed:\<close> unless it had been dispatched before the delegate was installed.
\<close>

theorem cache_not_primed_without_parts:
  assumes "cachedValue s (AttributePath (kRootEndpointId c) (MTRClusterIDTypeDescriptorID c)
              (MTRAttributeIDTypeClusterDescriptorAttributePartsListID c)) = Some d"
    and "typeKey d \<noteq> Some MTRArrayValueType \<or> valueKey d = Some (NSArray []) \<or>
         (\<forall>partsList. valueKey d \<noteq> Some (NSArray partsList))"
  shows "fst (isCachePrimedWithInitialConfigurationData c s) = Some False
       \<and> (\<exists>s'. setDelegate c s = Some s' \<and> DelegateDeviceCachePrimed \<notin> set (issued s s') \<and>
             (DelegateDeviceCachePrimed \<in> set (issued s' (handleSubscriptionEstablished s')) \<longleftrightarrow>
                \<not> delegateDeviceCachePrimedCalled s))
       \<and> (DelegateDeviceCachePrimed \<in> set (issued s (handleSubscriptionEstablished s)) \<longleftrightarrow>
             weakDelegate s \<and> \<not> delegateDeviceCachePrimedCalled s)"
proof -
  let ?s = "s\<lparr>weakDelegate := True\<rparr>"
  have cv: "cachedValue ?s = cachedValue s"
    by (rule cachedValue_cong, rule clusterView_cong) simp_all
  have p: "fst (isCachePrimedWithInitialConfigurationData c s) = Some False"
    by (rule isCachePrimed_without_parts [OF assms])
  have p': "fst (isCachePrimedWithInitialConfigurationData c ?s) = Some False"
    by (rule isCachePrimed_without_parts [OF _ assms(2)]) (simp add: cv assms(1))
  obtain s1 where s1: "isCachePrimedWithInitialConfigurationData c ?s = (Some False, s1)"
    using p' by (cases "isCachePrimedWithInitialConfigurationData c ?s") simp
  then have e1: "effects s1 = effects s"
    using isCachePrimed_frame(1) [of c ?s] by simp
  from s1 have w1: "weakDelegate s1"
    using isCachePrimed_frame(2) [of c ?s] by simp
  from s1 have f1: "delegateDeviceCachePrimedCalled s1 = delegateDeviceCachePrimedCalled s"
    using isCachePrimed_frame(3) [of c ?s] by simp
  define s' where "s' = setupSubscription (if delegateDeviceCachePrimedCalled s then ?s else s1)"
  have installed: "setDelegate c s = Some s'"
    by (simp add: setDelegate_def Let_def s1 s'_def)
  have quiet: "DelegateDeviceCachePrimed \<notin> set (issued s s')"
    using issued_setupSubscription [of ?s] issued_setupSubscription [of s1]
    by (simp add: issued_def e1 s'_def)
  have "weakDelegate s'" and "delegateDeviceCachePrimedCalled s' = delegateDeviceCachePrimedCalled s"
    using w1 f1 by (simp_all add: s'_def)
  then have later: "DelegateDeviceCachePrimed \<in> set (issued s' (handleSubscriptionEstablished s')) \<longleftrightarrow>
      \<not> delegateDeviceCachePrimedCalled s"
    by (simp add: issued_handleSubscriptionEstablished)
  show ?thesis
    using p installed quiet later issued_handleSubscriptionEstablished [of s] by blast
qed

lemma rootOnlyDevice_parts:
  "cachedValue rootOnlyDevice (AttributePath 0 29 3) = Some (arrayValue [])"
  by code_simp

theorem cache_not_primed_without_parts_witness:
  "fst (isCachePrimedWithInitialConfigurationData exampleConstants rootOnlyDevice) = Some False
   \<and> (\<exists>s'. setDelegate exampleConstants rootOnlyDevice = Some s' \<and>
             DelegateDeviceCachePrimed \<notin> set (issued rootOnlyDevice s') \<and>
             DelegateDeviceCachePrimed \<in> set (issued s' (handleSubscriptionEstablished s')))
   \<and> DelegateDeviceCachePrimed \<in>
        set (issued rootOnlyDevice (handleSubscriptionEstablished rootOnlyDevice))"
proof -
  have device: "weakDelegate rootOnlyDevice" "\<not> delegateDeviceCachePrimedCalled rootOnlyDevice"
    by (simp_all add: rootOnlyDevice_def initWithNodeID_def)
  show ?thesis
    using cache_not_primed_without_parts [of rootOnlyDevice exampleConstants "arrayValue []"]
      rootOnlyDevice_parts device
    by (simp add: exampleConstants_def arrayValue_def)
qed

text \<open>
  Claim C10 as stated fails in its consequence: on a device whose root parts list is
  present and empty the predicate answers \<^verbatim>\<open>NO\<close>, and
  \<^verbatim>\<open>_handleSubscriptionEstablished\<close> dispatches \<^verbatim>\<open>deviceCachePrimed:\<close> all the same.
\<close>

theorem cache_primed_fires_on_subscription_established:
  "fst (isCachePrimedWithInitialConfigurationData exampleConstants rootOnlyDevice) = Some False
   \<and> DelegateDeviceCachePrimed \<in> set (effects (handleSubscriptionEstablished rootOnlyDevice))"
proof -
  have "fst (isCachePrimedWithInitialConfigurationData exampleConstants rootOnlyDevice) = Some False"
    using isCachePrimed_without_parts [of rootOnlyDevice exampleConstants "arrayValue []"]
      rootOnlyDevice_parts
    by (simp add: exampleConstants_def arrayValue_def)
  moreover have "DelegateDeviceCachePrimed \<in> set (effects (handleSubscriptionEstablished rootOnlyDevice))"
    by (simp add: handleSubscriptionEstablished_def Let_def callDelegateDeviceCachePrimed_def
        callDelegateWithBlock_def changeState_def stopConnectivityMonitoring_def
        scheduleNextUpdate_def dispatch_def rootOnlyDevice_def initWithNodeID_def)
  ultimately show ?thesis by simp
qed

subsection \<open>Reports and the priming flag\<close>

lemma setClusterDataToPersist_flags [simp]:
  "receivingReport (setClusterDataToPersist cp d s) = receivingReport s"
  "receivingPrimingReport (setClusterDataToPersist cp d s) = receivingPrimingReport s"
  "weakDelegate (setClusterDataToPersist cp d s) = weakDelegate s"
  "unreportedEvents (setClusterDataToPersist cp d s) = unreportedEvents s"
  "effects (setClusterDataToPersist cp d s) = effects s"
  "expectedValueCache (setClusterDataToPersist cp d s) = expectedValueCache s"
  "deviceConfigurationChanged (setClusterDataToPersist cp d s) = deviceConfigurationChanged s"
  "persisted (setClusterDataToPersist cp d s) = persisted s"
  by (simp_all add: setClusterDataToPersist_def)

lemma setCachedAttributeValue_flags [simp]:
  "receivingReport (setCachedAttributeValue v p s) = receivingReport s"
  "receivingPrimingReport (setCachedAttributeValue v p s) = receivingPrimingReport s"
  "weakDelegate (setCachedAttributeValue v p s) = weakDelegate s"
  "unreportedEvents (setCachedAttributeValue v p s) = unreportedEvents s"
  "effects (setCachedAttributeValue v p s) = effects s"
  "expectedValueCache (setCachedAttributeValue v p s) = expectedValueCache s"
  "deviceConfigurationChanged (setCachedAttributeValue v p s) = deviceConfigurationChanged s"
  by (simp_all add: setCachedAttributeValue_def Let_def split_beta split: option.splits)

lemma clusterDataForPath_more_frame [simp]:
  "state (snd (clusterDataForPath cp s)) = state s"
  by (simp_all add: clusterDataForPath_def split: option.splits)

lemma noteDataVersion_flags [simp]:
  "receivingReport (noteDataVersion n cp s) = receivingReport s"
  "receivingPrimingReport (noteDataVersion n cp s) = receivingPrimingReport s"
  "weakDelegate (noteDataVersion n cp s) = weakDelegate s"
  "unreportedEvents (noteDataVersion n cp s) = unreportedEvents s"
  "effects (noteDataVersion n cp s) = effects s"
  "expectedValueCache (noteDataVersion n cp s) = expectedValueCache s"
  "deviceConfigurationChanged (noteDataVersion n cp s) = deviceConfigurationChanged s"
  by (simp_all add: noteDataVersion_def Let_def split_beta split: option.splits)

lemma reportedValueStep_flags_all:
  "receivingReport (fst (reportedValueStep c r acc)) = receivingReport (fst acc) \<and>
   weakDelegate (fst (reportedValueStep c r acc)) = weakDelegate (fst acc) \<and>
   unreportedEvents (fst (reportedValueStep c r acc)) = unreportedEvents (fst acc) \<and>
   effects (fst (reportedValueStep c r acc)) = effects (fst acc) \<and>
   receivingPrimingReport (fst (reportedValueStep c r acc)) =
     (receivingPrimingReport (fst acc) \<or>
      (carriesDataOrError r \<and> receivingReport (fst acc) \<and>
       AttributeHasChangesOmittedQuality c (attributePathKey r)))"
proof (cases "attributeErrorKey r")
  case (Some e)
  then show ?thesis
    by (auto simp add: reportedValueStep_def Let_def split_beta carriesDataOrError_def)
next
  case None
  note err = None
  show ?thesis
  proof (cases "attributeDataKey r")
    case None
    with err show ?thesis
      by (simp add: reportedValueStep_def Let_def split_beta carriesDataOrError_def)
  next
    case (Some d)
    with err show ?thesis
      by (cases "dataVersionKey d")
         (auto simp add: reportedValueStep_def Let_def split_beta carriesDataOrError_def)
  qed
qed

lemma reportedValueStep_flags:
  "receivingReport (fst (reportedValueStep c r acc)) = receivingReport (fst acc)"
  "weakDelegate (fst (reportedValueStep c r acc)) = weakDelegate (fst acc)"
  "unreportedEvents (fst (reportedValueStep c r acc)) = unreportedEvents (fst acc)"
  "effects (fst (reportedValueStep c r acc)) = effects (fst acc)"
  "receivingPrimingReport (fst (reportedValueStep c r acc)) =
     (receivingPrimingReport (fst acc) \<or>
      (carriesDataOrError r \<and> receivingReport (fst acc) \<and>
       AttributeHasChangesOmittedQuality c (attributePathKey r)))"
  using reportedValueStep_flags_all [of c r acc] by blast+

lemma fold_reportedValueStep_flags:
  "receivingReport (fst (fold (reportedValueStep c) rs acc)) = receivingReport (fst acc)"
  "weakDelegate (fst (fold (reportedValueStep c) rs acc)) = weakDelegate (fst acc)"
  "unreportedEvents (fst (fold (reportedValueStep c) rs acc)) = unreportedEvents (fst acc)"
  "effects (fst (fold (reportedValueStep c) rs acc)) = effects (fst acc)"
  "receivingPrimingReport (fst (fold (reportedValueStep c) rs acc)) =
     (receivingPrimingReport (fst acc) \<or>
      (receivingReport (fst acc) \<and>
       (\<exists>r \<in> set rs. carriesDataOrError r \<and>
          AttributeHasChangesOmittedQuality c (attributePathKey r))))"
  by (induction rs arbitrary: acc) (auto simp add: reportedValueStep_flags)

lemma handleAttributeReport_flags:
  "receivingReport (handleAttributeReport c rs s) = receivingReport s"
  "weakDelegate (handleAttributeReport c rs s) = weakDelegate s"
  "unreportedEvents (handleAttributeReport c rs s) = unreportedEvents s"
  "receivingPrimingReport (handleAttributeReport c rs s) =
     (receivingPrimingReport s \<or>
      (receivingReport s \<and>
       (\<exists>r \<in> set rs. carriesDataOrError r \<and>
          AttributeHasChangesOmittedQuality c (attributePathKey r))))"
  by (simp_all add: handleAttributeReport_def getAttributesToReportWithReportedValues_def
      split_beta Let_def reportAttributes_def fold_reportedValueStep_flags)

lemma fold_eventReportStep:
  "fold (eventReportStep s) evs acc =
     acc @ map (\<lambda>e. e\<lparr>eventIsHistoricalKey := Some (receivingPrimingReport s)\<rparr>)
             (filter deliverable evs)"
  by (induction evs arbitrary: acc)
     (auto simp add: eventReportStep_def deliverable_def split: option.splits)

lemma handleEventReport_flags:
  "receivingReport (handleEventReport evs s) = receivingReport s"
  "weakDelegate (handleEventReport evs s) = weakDelegate s"
  "receivingPrimingReport (handleEventReport evs s) = receivingPrimingReport s"
  by (simp_all add: handleEventReport_def Let_def)

lemma handleReportItem_flags:
  "receivingReport (handleReportItem c i s) = receivingReport s"
  "weakDelegate (handleReportItem c i s) = weakDelegate s"
  "receivingPrimingReport s \<Longrightarrow> receivingPrimingReport (handleReportItem c i s)"
  by (cases i; simp add: handleAttributeReport_flags handleEventReport_flags)+

lemma fold_handleReportItem_flags:
  "receivingReport (fold (handleReportItem c) items s) = receivingReport s"
  "weakDelegate (fold (handleReportItem c) items s) = weakDelegate s"
  "receivingPrimingReport s \<Longrightarrow> receivingPrimingReport (fold (handleReportItem c) items s)"
  by (induction items arbitrary: s) (simp_all add: handleReportItem_flags)

lemma handleReportBegin_flags:
  "receivingReport (handleReportBegin s)"
  "weakDelegate (handleReportBegin s) = weakDelegate s"
  "state s = MTRDeviceStateReachable \<Longrightarrow> \<not> receivingPrimingReport (handleReportBegin s)"
  by (simp_all add: handleReportBegin_def changeState_def Let_def)

lemma handleEventReport_delivers:
  assumes "weakDelegate s"
  shows "last (effects (handleEventReport evs s)) =
     DelegateReceivedEventReport
       ((case unreportedEvents s of Some unreported \<Rightarrow> unreported | None \<Rightarrow> []) @
        map (\<lambda>e. e\<lparr>eventIsHistoricalKey := Some (receivingPrimingReport s)\<rparr>)
          (filter deliverable evs))"
  using assms by (simp add: handleEventReport_def Let_def fold_eventReportStep)

text \<open>
  Claim C9. Whatever the state in which the report begins (reachable or not): once an
  attribute report of the batch holds an entry with data or an error whose path has the
  changes-omitted quality, the device is receiving a priming report, and it stays so for
  the rest of the batch; every event that an event report of the batch then delivers to
  the delegate is tagged historical.
\<close>

theorem changes_omitted_attribute_marks_report_as_priming:
  assumes "r \<in> set attributeReport" and "carriesDataOrError r"
    and "AttributeHasChangesOmittedQuality c (attributePathKey r)"
    and "weakDelegate s0"
    and "s1 = handleAttributeReport c attributeReport (handleReportBegin s0)"
    and "s2 = fold (handleReportItem c) later s1"
  shows "receivingPrimingReport s1 \<and> receivingPrimingReport s2
       \<and> last (effects (handleEventReport eventReport s2)) =
           DelegateReceivedEventReport
             ((case unreportedEvents s2 of Some unreported \<Rightarrow> unreported | None \<Rightarrow> []) @
              map (\<lambda>e. e\<lparr>eventIsHistoricalKey := Some True\<rparr>) (filter deliverable eventReport))"
proof -
  have s1: "receivingPrimingReport s1"
    using assms(1-3) by (auto simp add: assms(5) handleAttributeReport_flags handleReportBegin_flags)
  then have s2: "receivingPrimingReport s2"
    by (simp add: assms(6) fold_handleReportItem_flags)
  have "weakDelegate s2"
    using assms(4)
    by (simp add: assms(5,6) fold_handleReportItem_flags handleAttributeReport_flags
        handleReportBegin_flags)
  from handleEventReport_delivers [OF this, of eventReport] s1 s2
  show ?thesis by simp
qed


theorem changes_omitted_attribute_marks_report_as_priming_witness:
  "\<not> receivingPrimingReport (handleReportBegin (onOffDevice\<lparr>state := MTRDeviceStateReachable\<rparr>))
   \<and> receivingPrimingReport
        (handleAttributeReport exampleConstants [upTimeEntry]
           (handleReportBegin (onOffDevice\<lparr>state := MTRDeviceStateReachable\<rparr>)))
   \<and> last (effects (handleEventReport [posixTimeEvent]
        (handleAttributeReport exampleConstants [upTimeEntry]
           (handleReportBegin (onOffDevice\<lparr>state := MTRDeviceStateReachable\<rparr>))))) =
       DelegateReceivedEventReport [posixTimeEvent\<lparr>eventIsHistoricalKey := Some True\<rparr>]"
proof -
  let ?s0 = "onOffDevice\<lparr>state := MTRDeviceStateReachable\<rparr>"
  let ?s1 = "handleAttributeReport exampleConstants [upTimeEntry] (handleReportBegin ?s0)"
  have at_begin: "\<not> receivingPrimingReport (handleReportBegin ?s0)"
    by (simp add: handleReportBegin_flags)
  have omitted: "AttributeHasChangesOmittedQuality exampleConstants (attributePathKey upTimeEntry)"
    by (simp add: AttributeHasChangesOmittedQuality_def exampleConstants_def upTimeEntry_def)
  have carries: "carriesDataOrError upTimeEntry"
    by (simp add: carriesDataOrError_def upTimeEntry_def)
  have delegate: "weakDelegate ?s0"
    by (simp add: onOffDevice_def)
  have unreported: "unreportedEvents ?s1 = None"
    by (simp add: handleAttributeReport_flags handleReportBegin_def changeState_def Let_def
        onOffDevice_def initWithNodeID_def)
  have delivered: "deliverable posixTimeEvent"
    by (simp add: deliverable_def posixTimeEvent_def)
  from changes_omitted_attribute_marks_report_as_priming
    [of upTimeEntry "[upTimeEntry]" exampleConstants ?s0 ?s1 ?s1 "[]" "[posixTimeEvent]",
     OF _ carries omitted delegate refl]
  show ?thesis
    using at_begin by (simp add: unreported delivered)
qed

subsection \<open>Writing to the cluster data store\<close>

lemma dirtyClusterData_setClusterDataToPersist:
  "dirtyClusterData (setClusterDataToPersist cp d s) = (dirtyClusterData s)(cp \<mapsto> d)"
  by (rule ext)
     (simp add: dirtyClusterData_def setClusterDataToPersist_def update_conv'
        split: option.splits)

lemma clusterView_dirty:
  "dirtyClusterData s cp = Some d \<Longrightarrow> clusterView s cp = Some d"
  by (simp add: clusterView_def clusterDataForPath_def)

lemma clusterView_not_dirty:
  "dirtyClusterData s' cp = None \<Longrightarrow> dirtyClusterData s cp = None \<Longrightarrow>
   persisted s' = persisted s \<Longrightarrow> clusterView s' cp = clusterView s cp"
  by (simp add: clusterView_def clusterDataForPath_def split: option.splits)

lemma clusterView_setClusterDataToPersist:
  "clusterView (setClusterDataToPersist cp d s) = (clusterView s)(cp \<mapsto> d)"
proof (rule ext)
  fix cp'
  show "clusterView (setClusterDataToPersist cp d s) cp' = ((clusterView s)(cp \<mapsto> d)) cp'"
  proof (cases "cp' = cp")
    case True
    then show ?thesis
      by (simp add: clusterView_dirty dirtyClusterData_setClusterDataToPersist)
  next
    case False
    show ?thesis
    proof (cases "dirtyClusterData s cp'")
      case None
      have "clusterView (setClusterDataToPersist cp d s) cp' = clusterView s cp'"
        using False None
        by (intro clusterView_not_dirty)
           (simp_all add: dirtyClusterData_setClusterDataToPersist)
      with False show ?thesis by simp
    next
      case (Some a)
      with False show ?thesis
        by (simp add: clusterView_dirty dirtyClusterData_setClusterDataToPersist)
    qed
  qed
qed

lemma fst_clusterDataForPath [simp]: "fst (clusterDataForPath cp s) = clusterView s cp"
  by (simp add: clusterView_def)

lemma dirtyClusterData_cong:
  "clusterDataToPersist s' = clusterDataToPersist s \<Longrightarrow> dirtyClusterData s' = dirtyClusterData s"
  by (rule ext) (simp add: dirtyClusterData_def)

lemma clusterView_setCachedAttributeValue:
  "clusterView (setCachedAttributeValue v p s) =
     (case clusterView s (clusterPathWithEndpointID (endpoint p) (cluster p)) of
        None \<Rightarrow>
          if v = None then clusterView s
          else (clusterView s)(clusterPathWithEndpointID (endpoint p) (cluster p) \<mapsto>
                 storeValue v (attribute p) (initWithDataVersion None))
      | Some d \<Rightarrow>
          (clusterView s)(clusterPathWithEndpointID (endpoint p) (cluster p) \<mapsto>
             storeValue v (attribute p) d))"
  by (cases "clusterView s (clusterPathWithEndpointID (endpoint p) (cluster p))")
     (simp_all add: setCachedAttributeValue_def Let_def split_beta
        clusterView_setClusterDataToPersist)

lemma clusterView_noteDataVersion:
  "clusterView (noteDataVersion n cp s) =
     (case clusterView s cp of
        None \<Rightarrow> (clusterView s)(cp \<mapsto> initWithDataVersion (Some n))
      | Some d \<Rightarrow>
          if dataVersion d = Some n then clusterView s
          else (clusterView s)(cp \<mapsto> d\<lparr>dataVersion := Some n\<rparr>))"
  by (cases "clusterView s cp")
     (simp_all add: noteDataVersion_def Let_def split_beta clusterView_setClusterDataToPersist
        isEqual_def split: option.splits)

lemma clusterDataVersion_noteDataVersion:
  "clusterDataVersion (noteDataVersion n cp s) cp = Some n"
  by (cases "clusterView s cp")
     (simp_all add: clusterDataVersion_def clusterView_noteDataVersion initWithDataVersion_def)

lemma clusterDataVersion_setCachedAttributeValue:
  "clusterDataVersion (setCachedAttributeValue v p s) cp = clusterDataVersion s cp"
  by (cases "clusterView s (clusterPathWithEndpointID (endpoint p) (cluster p))")
     (simp_all add: clusterDataVersion_def clusterView_setCachedAttributeValue
        initWithDataVersion_def storeValue_def)

lemma dirtyClusterData_setCachedAttributeValue:
  "v \<noteq> None \<Longrightarrow>
   dirtyClusterData (setCachedAttributeValue v p s)
     (clusterPathWithEndpointID (endpoint p) (cluster p)) \<noteq> None"
  by (cases "clusterView s (clusterPathWithEndpointID (endpoint p) (cluster p))")
     (auto simp add: setCachedAttributeValue_def Let_def split_beta
        dirtyClusterData_setClusterDataToPersist)

lemma clusterDataVersion_cong:
  "clusterView s' = clusterView s \<Longrightarrow> clusterDataVersion s' = clusterDataVersion s"
  by (rule ext) (simp add: clusterDataVersion_def)

subsection \<open>Data versions in the report intake\<close>

lemma clusterView_flag_updates [simp]:
  "clusterView (s\<lparr>receivingPrimingReport := x\<rparr>) = clusterView s"
  "clusterView (s\<lparr>deviceConfigurationChanged := y\<rparr>) = clusterView s"
  by (rule clusterView_cong; simp)+

lemma dirtyClusterData_flag_updates [simp]:
  "dirtyClusterData (s\<lparr>receivingPrimingReport := x\<rparr>) = dirtyClusterData s"
  "dirtyClusterData (s\<lparr>deviceConfigurationChanged := y\<rparr>) = dirtyClusterData s"
  by (rule dirtyClusterData_cong; simp)+

lemma clusterDataVersion_flag_updates [simp]:
  "clusterDataVersion (s\<lparr>receivingPrimingReport := x\<rparr>) = clusterDataVersion s"
  "clusterDataVersion (s\<lparr>deviceConfigurationChanged := y\<rparr>) = clusterDataVersion s"
  by (rule clusterDataVersion_cong; simp)+

lemma cachedValue_flag_updates [simp]:
  "cachedValue (s\<lparr>receivingPrimingReport := x\<rparr>) = cachedValue s"
  by (rule cachedValue_cong) simp

lemma clusterDataVersion_cachedAttributeValueForPath [simp]:
  "clusterDataVersion (snd (cachedAttributeValueForPath p s)) = clusterDataVersion s"
  by (rule clusterDataVersion_cong) simp

lemma dataValueWithoutDataVersion_Some: "dataValueWithoutDataVersion (Some d) \<noteq> None"
  by (simp add: dataValueWithoutDataVersion_def)

lemma reportedDataValue_Some: "reportedDataValue d \<noteq> None"
  using dataValueWithoutDataVersion_Some [of d] by (auto simp add: reportedDataValue_def)

lemma reportedValueStep_unchanged:
  assumes "attributeErrorKey r = None" "attributeDataKey r = Some d"
    and "attributeDataValueIsEqualToDataValue (reportedDataValue d) (cachedValue s (attributePathKey r))"
  shows "clusterDataVersion (fst (reportedValueStep c r (s, acc))) = clusterDataVersion s"
    and "clusterDataToPersist (fst (reportedValueStep c r (s, acc))) = clusterDataToPersist s"
  using assms
  by (cases "dataVersionKey d";
      simp add: reportedValueStep_def Let_def split_beta reportedDataValue_def)+

lemma reportedValueStep_changed_without_version:
  assumes "attributeErrorKey r = None" "attributeDataKey r = Some d"
    and "dataVersionKey d = None"
  shows "clusterDataVersion (fst (reportedValueStep c r (s, acc))) cp = clusterDataVersion s cp"
  using assms
  by (simp add: reportedValueStep_def Let_def split_beta
      clusterDataVersion_setCachedAttributeValue)

lemma reportedValueStep_changed_with_version:
  assumes "attributeErrorKey r = None" "attributeDataKey r = Some d"
    and "dataVersionKey d = Some v"
    and "\<not> attributeDataValueIsEqualToDataValue (reportedDataValue d) (cachedValue s (attributePathKey r))"
  shows "clusterDataVersion (fst (reportedValueStep c r (s, acc)))
           (clusterPathWithEndpointID (endpoint (attributePathKey r)) (cluster (attributePathKey r)))
         = Some v"
    and "dirtyClusterData (fst (reportedValueStep c r (s, acc)))
           (clusterPathWithEndpointID (endpoint (attributePathKey r)) (cluster (attributePathKey r)))
         \<noteq> None"
proof -
  let ?p = "attributePathKey r"
  let ?cp = "clusterPathWithEndpointID (endpoint ?p) (cluster ?p)"
  let ?s1 = "if receivingReport s \<and> AttributeHasChangesOmittedQuality c ?p
             then s\<lparr>receivingPrimingReport := True\<rparr> else s"
  define s4 where "s4 = setCachedAttributeValue (reportedDataValue d) ?p
      (noteDataVersion v ?cp (snd (cachedAttributeValueForPath ?p ?s1)))"
  have step: "fst (reportedValueStep c r (s, acc)) =
      (if \<not> deviceConfigurationChanged s4
       then s4\<lparr>deviceConfigurationChanged := attributeAffectsDeviceConfiguration c ?p\<rparr>
       else s4)"
    using assms
    by (simp add: reportedValueStep_def Let_def split_beta reportedDataValue_def s4_def)
  have "clusterDataVersion s4 ?cp = Some v"
    by (simp add: s4_def clusterDataVersion_setCachedAttributeValue
        clusterDataVersion_noteDataVersion)
  then show "clusterDataVersion (fst (reportedValueStep c r (s, acc))) ?cp = Some v"
    by (simp add: step)
  have "dirtyClusterData s4 ?cp \<noteq> None"
    unfolding s4_def
    by (rule dirtyClusterData_setCachedAttributeValue [OF reportedDataValue_Some])
  then show "dirtyClusterData (fst (reportedValueStep c r (s, acc))) ?cp \<noteq> None"
    by (simp add: step)
qed

text \<open>
  Claim C6, as the code has it. For a reported entry without an error, the data version
  of its cluster is set to the version that the entry carries, and the cluster is marked
  dirty, when the entry carries a version and its value differs from the value of the
  read cache; when the entry carries no version, or its value equals the value of the
  read cache, the data version of the cluster stays what it was, and in the second case
  nothing is marked dirty.
\<close>

theorem data_version_noted_when_value_changed:
  assumes "attributeErrorKey r = None" and "attributeDataKey r = Some d"
    and "clusterPath = clusterPathWithEndpointID (endpoint (attributePathKey r))
                         (cluster (attributePathKey r))"
    and "readCacheValueChanged \<longleftrightarrow>
           \<not> attributeDataValueIsEqualToDataValue (reportedDataValue d)
               (cachedValue s (attributePathKey r))"
    and "s' = fst (reportedValueStep c r (s, attributesToReport))"
  shows "(\<forall>v. dataVersionKey d = Some v \<and> readCacheValueChanged \<longrightarrow>
            clusterDataVersion s' clusterPath = Some v \<and> dirtyClusterData s' clusterPath \<noteq> None)
       \<and> (dataVersionKey d = None \<or> \<not> readCacheValueChanged \<longrightarrow>
            clusterDataVersion s' clusterPath = clusterDataVersion s clusterPath)
       \<and> (\<not> readCacheValueChanged \<longrightarrow> clusterDataToPersist s' = clusterDataToPersist s)"
  using reportedValueStep_changed_with_version [OF assms(1,2), of _ s c attributesToReport]
    reportedValueStep_changed_without_version [OF assms(1,2), of c s attributesToReport clusterPath]
    reportedValueStep_unchanged [OF assms(1,2), of s c attributesToReport]
  by (auto simp add: assms(3,4,5))


lemma onOffDevice_on_is_a_change:
  "\<not> attributeDataValueIsEqualToDataValue (reportedDataValue (versionedBoolean True 8))
       (cachedValue onOffDevice (attributePathKey (onOffEntry True 8)))"
  by code_simp

theorem data_version_noted_when_value_changed_witness:
  "clusterDataVersion (fst (reportedValueStep exampleConstants (onOffEntry True 8) (onOffDevice, [])))
     (1, 6) = Some 8
   \<and> dirtyClusterData (fst (reportedValueStep exampleConstants (onOffEntry True 8) (onOffDevice, [])))
     (1, 6) \<noteq> None"
  using data_version_noted_when_value_changed
    [of "onOffEntry True 8" "versionedBoolean True 8" "(1, 6)" True onOffDevice _
        exampleConstants "[]", OF _ _ _ _ refl]
    onOffDevice_on_is_a_change
  by (simp add: onOffEntry_def versionedBoolean_def onOffPath_def clusterPathWithEndpointID_def)


lemma clusterDataVersion_reportAttributes [simp]:
  "clusterDataVersion (reportAttributes as s) = clusterDataVersion s"
  by (rule clusterDataVersion_cong) simp

lemma onOffDevice_off_is_no_change:
  "attributeDataValueIsEqualToDataValue (reportedDataValue (versionedBoolean False 8))
     (cachedValue onOffDevice (attributePathKey (onOffEntry False 8)))"
  by code_simp

lemma onOffDevice_version: "clusterDataVersion onOffDevice (1, 6) = Some 7"
  by code_simp

text \<open>
  Claim C6 as stated fails for an entry that carries a new data version with the value the
  cache already holds: the cache says off at version 7, the report says off at version 8,
  and the stored data version stays 7.
\<close>

theorem data_version_not_noted_when_value_unchanged:
  "dataVersionKey (versionedBoolean False 8) = Some 8
   \<and> clusterDataVersion (handleAttributeReport exampleConstants [onOffEntry False 8] onOffDevice)
       (1, 6) = Some 7"
proof -
  have "clusterDataVersion
      (fst (reportedValueStep exampleConstants (onOffEntry False 8) (onOffDevice, []))) =
      clusterDataVersion onOffDevice"
    by (rule reportedValueStep_unchanged(1) [OF _ _ onOffDevice_off_is_no_change])
       (simp_all add: onOffEntry_def)
  then show ?thesis
    using onOffDevice_version
    by (simp add: handleAttributeReport_def getAttributesToReportWithReportedValues_def
        split_beta Let_def versionedBoolean_def)
qed

subsection \<open>Read batching and duplicate reads\<close>




lemma attributeValueDictionaryForAttributePath_frame [simp]:
  "asyncWorkQueue (snd (attributeValueDictionaryForAttributePath p now s)) = asyncWorkQueue s"
  "weakDelegate (snd (attributeValueDictionaryForAttributePath p now s)) = weakDelegate s"
  "deviceControllerIsOverXPC (snd (attributeValueDictionaryForAttributePath p now s)) =
     deviceControllerIsOverXPC s"
  by (simp_all add: attributeValueDictionaryForAttributePath_def split: option.splits)

lemma asyncWorkQueue_readThroughSkipped [simp]:
  "asyncWorkQueue (readThroughSkipped now s) = asyncWorkQueue s"
  by (simp add: readThroughSkipped_def split: option.splits)





end
